theory Spec2Isabelle
  imports Main
begin

section \<open>Data model (server/src/schema.ts)\<close>

text \<open>
  Identity keys and foreign keys are integers. A \<open>Date\<close> is a clock reading in
  milliseconds. A field declared \<open>.optional()\<close> is an \<open>option\<close> (\<open>None\<close> is
  \<open>undefined\<close>); a field declared \<open>.nullable().optional()\<close> is an option of an
  option (\<open>Some None\<close> is \<open>null\<close>); a \<open>.nullable()\<close> column is an option
  (\<open>None\<close> is \<open>null\<close>).

  Currency values have the type parameter \<open>'n\<close> (a JavaScript number) in the records
  the handlers take and return, and are text in the stored rows. The handlers never
  compute with them: they only call \<open>toString\<close> and \<open>parseFloat\<close>, which are
  passed to each handler as the two fields of a \<open>NumberCodec\<close>.
\<close>

type_synonym Date = int

datatype UserRole = Role_admin | Role_user | Role_guest

datatype OrderStatus =
  Status_pending | Status_processing | Status_shipped | Status_delivered | Status_cancelled

record 'n NumberCodec =
  toString :: "'n \<Rightarrow> string"
  parseFloat :: "string \<Rightarrow> 'n"

record User =
  u_id :: int
  u_name :: string
  u_email :: string
  u_role :: UserRole
  u_is_active :: bool
  u_created_at :: Date
  u_updated_at :: Date

record CreateUserInput =
  cu_name :: string
  cu_email :: string
  cu_role :: "UserRole option"
  cu_is_active :: "bool option"

record UpdateUserInput =
  uu_id :: int
  uu_name :: "string option"
  uu_email :: "string option"
  uu_role :: "UserRole option"
  uu_is_active :: "bool option"

record Category =
  c_id :: int
  c_name :: string
  c_description :: "string option"
  c_is_active :: bool
  c_created_at :: Date
  c_updated_at :: Date

record CreateCategoryInput =
  cc_name :: string
  cc_description :: "string option option"
  cc_is_active :: "bool option"

record UpdateCategoryInput =
  uc_id :: int
  uc_name :: "string option"
  uc_description :: "string option option"
  uc_is_active :: "bool option"

text \<open>\<open>'p\<close> is the type of the price: text in a stored row, a number in a \<open>Product\<close>.\<close>

record 'p Product =
  p_id :: int
  p_name :: string
  p_description :: "string option"
  p_price :: 'p
  p_stock_quantity :: int
  p_category_id :: "int option"
  p_is_active :: bool
  p_created_at :: Date
  p_updated_at :: Date

record 'n CreateProductInput =
  cp_name :: string
  cp_description :: "string option option"
  cp_price :: 'n
  cp_stock_quantity :: "int option"
  cp_category_id :: "int option option"
  cp_is_active :: "bool option"

record 'n UpdateProductInput =
  up_id :: int
  up_name :: "string option"
  up_description :: "string option option"
  up_price :: "'n option"
  up_stock_quantity :: "int option"
  up_category_id :: "int option option"
  up_is_active :: "bool option"

record 'p Order =
  o_id :: int
  o_user_id :: int
  o_status :: OrderStatus
  o_total_amount :: 'p
  o_notes :: "string option"
  o_created_at :: Date
  o_updated_at :: Date

record 'n CreateOrderInput =
  co_user_id :: int
  co_status :: "OrderStatus option"
  co_total_amount :: 'n
  co_notes :: "string option option"

record 'n UpdateOrderInput =
  uo_id :: int
  uo_user_id :: "int option"
  uo_status :: "OrderStatus option"
  uo_total_amount :: "'n option"
  uo_notes :: "string option option"

record 'p OrderItem =
  oi_id :: int
  oi_order_id :: int
  oi_product_id :: int
  oi_quantity :: int
  oi_unit_price :: 'p
  oi_subtotal :: 'p
  oi_created_at :: Date

record 'n CreateOrderItemInput =
  coi_order_id :: int
  coi_product_id :: int
  coi_quantity :: int
  coi_unit_price :: 'n
  coi_subtotal :: 'n

record 'n UpdateOrderItemInput =
  uoi_id :: int
  uoi_order_id :: "int option"
  uoi_product_id :: "int option"
  uoi_quantity :: "int option"
  uoi_unit_price :: "'n option"
  uoi_subtotal :: "'n option"

text \<open>
  \<open>DeleteInput\<close> and \<open>GetByIdInput\<close> hold one field, the id: the handlers below take
  it directly. \<open>getByIdInputSchema\<close> admits every number as the id, and the reads by id
  are modelled with all of them: \<open>KeyValue i\<close> is a number that the key column of the
  storage can hold, the integer \<open>i\<close>; \<open>NotKeyValue\<close> is any other number (1.5, or an
  integer beyond the width of the column, which the sources do not declare).
\<close>

datatype IdValue = KeyValue int | NotKeyValue

section \<open>Storage\<close>

text \<open>
  Modelled from the spec: the table declarations (\<open>server/src/db/schema.ts\<close>) and the
  storage engine are absent. A table is the list of its rows in insertion order with the
  next value of its identity sequence. The engine assigns the identity key on insert and
  stamps \<open>created_at\<close> and \<open>updated_at\<close> with its clock; it keeps currency columns as
  the text it was given; it enforces no foreign key and cascades no delete.
\<close>

record 'r Table =
  rows :: "'r list"
  next_id :: int

record DB =
  usersTable :: "User Table"
  categoriesTable :: "Category Table"
  productsTable :: "string Product Table"
  ordersTable :: "string Order Table"
  orderItemsTable :: "string OrderItem Table"

definition empty_table :: "'r Table" where
  "empty_table = \<lparr>rows = [], next_id = 1\<rparr>"

definition empty_db :: DB where
  "empty_db = \<lparr>usersTable = empty_table, categoriesTable = empty_table,
     productsTable = empty_table, ordersTable = empty_table,
     orderItemsTable = empty_table\<rparr>"

text \<open>Modelled from the spec: \<open>db.select().from(t).where(P).execute()\<close>, the rows
  that satisfy \<open>P\<close>, in the order of the table.\<close>

definition select_where :: "('r \<Rightarrow> bool) \<Rightarrow> 'r Table \<Rightarrow> 'r list" where
  "select_where P t = filter P (rows t)"

text \<open>Modelled from the spec: \<open>db.insert(t).values(v).returning().execute()\<close>. The
  key of the new row is the next value of the sequence, which then moves on by one;
  \<open>mk\<close> builds the row from the key. The result is the list of inserted rows and the
  new table.\<close>

definition insert_returning :: "(int \<Rightarrow> 'r) \<Rightarrow> 'r Table \<Rightarrow> 'r list \<times> 'r Table" where
  "insert_returning mk t =
     (let r = mk (next_id t)
      in ([r], \<lparr>rows = rows t @ [r], next_id = next_id t + 1\<rparr>))"

text \<open>Modelled from the spec: \<open>db.update(t).set(f).where(P).returning().execute()\<close>.
  Every row that satisfies \<open>P\<close> is changed by \<open>f\<close>, in place; the result is the list
  of changed rows and the new table.\<close>

definition update_where ::
  "('r \<Rightarrow> bool) \<Rightarrow> ('r \<Rightarrow> 'r) \<Rightarrow> 'r Table \<Rightarrow> 'r list \<times> 'r Table" where
  "update_where P f t =
     (map f (filter P (rows t)),
      \<lparr>rows = map (\<lambda>r. if P r then f r else r) (rows t), next_id = next_id t\<rparr>)"

text \<open>Modelled from the spec: \<open>db.delete(t).where(P).returning().execute()\<close>. The
  rows that satisfy \<open>P\<close> are removed; the result is the list of removed rows and the
  new table.\<close>

definition delete_where :: "('r \<Rightarrow> bool) \<Rightarrow> 'r Table \<Rightarrow> 'r list \<times> 'r Table" where
  "delete_where P t =
     (filter P (rows t),
      \<lparr>rows = filter (\<lambda>r. \<not> P r) (rows t), next_id = next_id t\<rparr>)"

section \<open>Errors and results\<close>

datatype Entity = EUser | ECategory | EProduct | EOrder | EOrderItem

text \<open>
  \<open>NotFound e i\<close> is \<open>Error(`<e> with ID <i> not found`)\<close> and \<open>DoesNotExist e i\<close> is
  \<open>Error(`<e> with ID <i> does not exist`)\<close>. \<open>NoRow\<close> stands for reading
  \<open>result[0]\<close> of an empty result. \<open>NoValuesToSet\<close> is the \<open>Error('No values to set')\<close>
  that the query builder throws when \<open>.set\<close> is given an object without a key.
  \<open>StorageError\<close> is a failure of the storage engine, which every handler logs and
  rethrows unchanged.
\<close>

datatype Error =
  NotFound Entity int | DoesNotExist Entity int | NoRow | NoValuesToSet | StorageError

text \<open>A handler returns its result, or the error it throws, and the storage it leaves.\<close>

type_synonym 'a Result = "(Error + 'a) \<times> DB"

record DeleteResult =
  success :: bool

definition first_row :: "'r list \<Rightarrow> Error + 'r" where
  "first_row rs = (case rs of [] \<Rightarrow> Inl NoRow | r # _ \<Rightarrow> Inr r)"

text \<open>Modelled from the spec: \<open>db.select().from(t).where(eq(t.column, n)).execute()\<close>
  for a number \<open>n\<close> taken from a \<open>GetByIdInput\<close>. The identity keys are integers: the
  engine fails on a number that the column cannot hold, and selects by the integer
  otherwise.\<close>

definition select_by_id :: "('r \<Rightarrow> int) \<Rightarrow> IdValue \<Rightarrow> 'r Table \<Rightarrow> Error + 'r list" where
  "select_by_id column n t =
     (case n of
        NotKeyValue \<Rightarrow> Inl StorageError
      | KeyValue i \<Rightarrow> Inr (select_where (\<lambda>r. column r = i) t))"

text \<open>JavaScript \<open>a || b\<close>, \<open>a ?? b\<close> on the input types that occur.\<close>

definition or_default :: "'a option \<Rightarrow> 'a \<Rightarrow> 'a" where
  "or_default a d = (case a of None \<Rightarrow> d | Some v \<Rightarrow> v)"

text \<open>\<open>s || null\<close> for an optional nullable string: \<open>undefined\<close>, \<open>null\<close> and the
  empty string are falsy.\<close>

definition string_or_null :: "string option option \<Rightarrow> string option" where
  "string_or_null a =
     (case a of None \<Rightarrow> None | Some None \<Rightarrow> None
      | Some (Some s) \<Rightarrow> (if s = [] then None else Some s))"

text \<open>\<open>n || null\<close> for an optional nullable integer: \<open>undefined\<close>, \<open>null\<close> and \<open>0\<close>
  are falsy.\<close>

definition int_or_null :: "int option option \<Rightarrow> int option" where
  "int_or_null a =
     (case a of None \<Rightarrow> None | Some None \<Rightarrow> None
      | Some (Some n) \<Rightarrow> (if n = 0 then None else Some n))"

section \<open>User handlers (server/src/handlers/users.ts)\<close>

text \<open>
  The handlers modelled are the ones that use the database; the stub declarations that
  return a placeholder record are not. A handler that consults a clock takes its
  reading as the argument \<open>now\<close>: for a create it is the reading of the storage clock
  that stamps the new row, for an update it is the handler's own \<open>new Date()\<close>.
\<close>

text \<open>The row that \<open>.values({...})\<close> of \<open>createUser\<close> inserts: the values the handler
  gives and, modelled from the spec, the columns the table declaration fills in: the
  generated key \<open>i\<close> and both timestamps at the storage clock's reading. The same
  holds for the rows of the other four create handlers.\<close>

definition user_values :: "Date \<Rightarrow> CreateUserInput \<Rightarrow> int \<Rightarrow> User" where
  "user_values now input i =
     \<lparr>u_id = i, u_name = cu_name input, u_email = cu_email input,
      u_role = or_default (cu_role input) Role_user,
      u_is_active = or_default (cu_is_active input) True,
      u_created_at = now, u_updated_at = now\<rparr>"

definition createUser :: "Date \<Rightarrow> CreateUserInput \<Rightarrow> DB \<Rightarrow> User Result" where
  "createUser now input db =
     (let (result, t) = insert_returning (user_values now input) (usersTable db)
      in (first_row result, db\<lparr>usersTable := t\<rparr>))"

definition getUsers :: "DB \<Rightarrow> User list Result" where
  "getUsers db = (Inr (rows (usersTable db)), db)"

definition getUserById :: "IdValue \<Rightarrow> DB \<Rightarrow> User option Result" where
  "getUserById n db =
     (case select_by_id u_id n (usersTable db) of
        Inl error \<Rightarrow> (Inl error, db)
      | Inr result \<Rightarrow> (Inr (case result of [] \<Rightarrow> None | r # _ \<Rightarrow> Some r), db))"

text \<open>The object \<open>updateValues\<close> of \<open>updateUser\<close>, as the change \<open>.set(updateValues)\<close>
  makes to a row: a field that is \<open>undefined\<close> in the input is not a key of the object,
  and its column is left as it is.\<close>

definition user_updateValues :: "Date \<Rightarrow> UpdateUserInput \<Rightarrow> User \<Rightarrow> User" where
  "user_updateValues now input r =
     r\<lparr>u_updated_at := now,
       u_name := or_default (uu_name input) (u_name r),
       u_email := or_default (uu_email input) (u_email r),
       u_role := or_default (uu_role input) (u_role r),
       u_is_active := or_default (uu_is_active input) (u_is_active r)\<rparr>"

definition updateUser :: "Date \<Rightarrow> UpdateUserInput \<Rightarrow> DB \<Rightarrow> User Result" where
  "updateUser now input db =
     (case fst (getUserById (KeyValue (uu_id input)) db) of
        Inl e \<Rightarrow> (Inl e, db)
      | Inr None \<Rightarrow> (Inl (NotFound EUser (uu_id input)), db)
      | Inr (Some existingUser) \<Rightarrow>
          (let (result, t) = update_where (\<lambda>r. u_id r = uu_id input)
                 (user_updateValues now input) (usersTable db)
           in (first_row result, db\<lparr>usersTable := t\<rparr>)))"

definition deleteUser :: "int \<Rightarrow> DB \<Rightarrow> DeleteResult Result" where
  "deleteUser i db =
     (case fst (getUserById (KeyValue i) db) of
        Inl e \<Rightarrow> (Inl e, db)
      | Inr None \<Rightarrow> (Inl (NotFound EUser i), db)
      | Inr (Some existingUser) \<Rightarrow>
          (let (deleted, t) = delete_where (\<lambda>r. u_id r = i) (usersTable db)
           in (Inr \<lparr>success = True\<rparr>, db\<lparr>usersTable := t\<rparr>)))"

section \<open>Category handlers (server/src/handlers/categories.ts)\<close>

definition category_values :: "Date \<Rightarrow> CreateCategoryInput \<Rightarrow> int \<Rightarrow> Category" where
  "category_values now input i =
     \<lparr>c_id = i, c_name = cc_name input,
      c_description = string_or_null (cc_description input),
      c_is_active = or_default (cc_is_active input) True,
      c_created_at = now, c_updated_at = now\<rparr>"

definition createCategory :: "Date \<Rightarrow> CreateCategoryInput \<Rightarrow> DB \<Rightarrow> Category Result" where
  "createCategory now input db =
     (let (result, t) = insert_returning (category_values now input) (categoriesTable db)
      in (first_row result, db\<lparr>categoriesTable := t\<rparr>))"

definition getCategories :: "DB \<Rightarrow> Category list Result" where
  "getCategories db = (Inr (rows (categoriesTable db)), db)"

definition getCategoryById :: "IdValue \<Rightarrow> DB \<Rightarrow> Category option Result" where
  "getCategoryById n db =
     (case select_by_id c_id n (categoriesTable db) of
        Inl error \<Rightarrow> (Inl error, db)
      | Inr result \<Rightarrow> (Inr (case result of [] \<Rightarrow> None | r # _ \<Rightarrow> Some r), db))"

definition category_updateData :: "Date \<Rightarrow> UpdateCategoryInput \<Rightarrow> Category \<Rightarrow> Category" where
  "category_updateData now input r =
     r\<lparr>c_name := or_default (uc_name input) (c_name r),
       c_description := or_default (uc_description input) (c_description r),
       c_is_active := or_default (uc_is_active input) (c_is_active r),
       c_updated_at := now\<rparr>"

definition updateCategory :: "Date \<Rightarrow> UpdateCategoryInput \<Rightarrow> DB \<Rightarrow> Category Result" where
  "updateCategory now input db =
     (let (result, t) = update_where (\<lambda>r. c_id r = uc_id input)
            (category_updateData now input) (categoriesTable db)
      in (case result of
            [] \<Rightarrow> (Inl (NotFound ECategory (uc_id input)), db\<lparr>categoriesTable := t\<rparr>)
          | r # _ \<Rightarrow> (Inr r, db\<lparr>categoriesTable := t\<rparr>)))"

definition deleteCategory :: "int \<Rightarrow> DB \<Rightarrow> DeleteResult Result" where
  "deleteCategory i db =
     (let (result, t) = delete_where (\<lambda>r. c_id r = i) (categoriesTable db)
      in (Inr \<lparr>success = (length result > 0)\<rparr>, db\<lparr>categoriesTable := t\<rparr>))"

section \<open>Product handlers (server/src/handlers/products.ts)\<close>

text \<open>\<open>{...product, price: parseFloat(product.price)}\<close>\<close>

definition product_of_row :: "'n NumberCodec \<Rightarrow> string Product \<Rightarrow> 'n Product" where
  "product_of_row js product =
     \<lparr>p_id = p_id product, p_name = p_name product,
      p_description = p_description product,
      p_price = parseFloat js (p_price product),
      p_stock_quantity = p_stock_quantity product,
      p_category_id = p_category_id product, p_is_active = p_is_active product,
      p_created_at = p_created_at product, p_updated_at = p_updated_at product\<rparr>"

definition product_values ::
  "'n NumberCodec \<Rightarrow> Date \<Rightarrow> 'n CreateProductInput \<Rightarrow> int \<Rightarrow> string Product" where
  "product_values js now input i =
     \<lparr>p_id = i, p_name = cp_name input,
      p_description = string_or_null (cp_description input),
      p_price = toString js (cp_price input),
      p_stock_quantity = or_default (cp_stock_quantity input) 0,
      p_category_id = int_or_null (cp_category_id input),
      p_is_active = or_default (cp_is_active input) True,
      p_created_at = now, p_updated_at = now\<rparr>"

definition createProduct ::
  "'n NumberCodec \<Rightarrow> Date \<Rightarrow> 'n CreateProductInput \<Rightarrow> DB \<Rightarrow> 'n Product Result" where
  "createProduct js now input db =
     (let (result, t) = insert_returning (product_values js now input) (productsTable db)
      in (case first_row result of
            Inl e \<Rightarrow> (Inl e, db\<lparr>productsTable := t\<rparr>)
          | Inr product \<Rightarrow> (Inr (product_of_row js product), db\<lparr>productsTable := t\<rparr>)))"

definition getProducts :: "'n NumberCodec \<Rightarrow> DB \<Rightarrow> 'n Product list Result" where
  "getProducts js db = (Inr (map (product_of_row js) (rows (productsTable db))), db)"

definition getProductById ::
  "'n NumberCodec \<Rightarrow> IdValue \<Rightarrow> DB \<Rightarrow> 'n Product option Result" where
  "getProductById js n db =
     (case select_by_id p_id n (productsTable db) of
        Inl error \<Rightarrow> (Inl error, db)
      | Inr results \<Rightarrow>
          (case results of
             [] \<Rightarrow> (Inr None, db)
           | product # _ \<Rightarrow> (Inr (Some (product_of_row js product)), db)))"

definition product_updateValues ::
  "'n NumberCodec \<Rightarrow> Date \<Rightarrow> 'n UpdateProductInput \<Rightarrow> string Product \<Rightarrow> string Product" where
  "product_updateValues js now input r =
     r\<lparr>p_name := or_default (up_name input) (p_name r),
       p_description := or_default (up_description input) (p_description r),
       p_price := (case up_price input of None \<Rightarrow> p_price r | Some v \<Rightarrow> toString js v),
       p_stock_quantity := or_default (up_stock_quantity input) (p_stock_quantity r),
       p_category_id := or_default (up_category_id input) (p_category_id r),
       p_is_active := or_default (up_is_active input) (p_is_active r),
       p_updated_at := now\<rparr>"

definition updateProduct ::
  "'n NumberCodec \<Rightarrow> Date \<Rightarrow> 'n UpdateProductInput \<Rightarrow> DB \<Rightarrow> 'n Product Result" where
  "updateProduct js now input db =
     (let (results, t) = update_where (\<lambda>r. p_id r = up_id input)
            (product_updateValues js now input) (productsTable db)
      in (case results of
            [] \<Rightarrow> (Inl (NotFound EProduct (up_id input)), db\<lparr>productsTable := t\<rparr>)
          | product # _ \<Rightarrow>
              (Inr (product_of_row js product), db\<lparr>productsTable := t\<rparr>)))"

definition deleteProduct :: "int \<Rightarrow> DB \<Rightarrow> DeleteResult Result" where
  "deleteProduct i db =
     (let (results, t) = delete_where (\<lambda>r. p_id r = i) (productsTable db)
      in (Inr \<lparr>success = (length results > 0)\<rparr>, db\<lparr>productsTable := t\<rparr>))"

section \<open>Order handlers (server/src/handlers/orders.ts)\<close>

text \<open>\<open>{...order, total_amount: parseFloat(order.total_amount)}\<close>\<close>

definition order_of_row :: "'n NumberCodec \<Rightarrow> string Order \<Rightarrow> 'n Order" where
  "order_of_row js order =
     \<lparr>o_id = o_id order, o_user_id = o_user_id order, o_status = o_status order,
      o_total_amount = parseFloat js (o_total_amount order),
      o_notes = o_notes order,
      o_created_at = o_created_at order, o_updated_at = o_updated_at order\<rparr>"

definition order_values ::
  "'n NumberCodec \<Rightarrow> Date \<Rightarrow> 'n CreateOrderInput \<Rightarrow> int \<Rightarrow> string Order" where
  "order_values js now input i =
     \<lparr>o_id = i, o_user_id = co_user_id input,
      o_status = or_default (co_status input) Status_pending,
      o_total_amount = toString js (co_total_amount input),
      o_notes = string_or_null (co_notes input),
      o_created_at = now, o_updated_at = now\<rparr>"

definition createOrder ::
  "'n NumberCodec \<Rightarrow> Date \<Rightarrow> 'n CreateOrderInput \<Rightarrow> DB \<Rightarrow> 'n Order Result" where
  "createOrder js now input db =
     (let existingUser = select_where (\<lambda>r. u_id r = co_user_id input) (usersTable db)
      in if length existingUser = 0
         then (Inl (NotFound EUser (co_user_id input)), db)
         else
           (let (result, t) = insert_returning (order_values js now input) (ordersTable db)
            in (case first_row result of
                  Inl e \<Rightarrow> (Inl e, db\<lparr>ordersTable := t\<rparr>)
                | Inr order \<Rightarrow> (Inr (order_of_row js order), db\<lparr>ordersTable := t\<rparr>))))"

definition getOrders :: "'n NumberCodec \<Rightarrow> DB \<Rightarrow> 'n Order list Result" where
  "getOrders js db = (Inr (map (order_of_row js) (rows (ordersTable db))), db)"

definition getOrderById ::
  "'n NumberCodec \<Rightarrow> IdValue \<Rightarrow> DB \<Rightarrow> 'n Order option Result" where
  "getOrderById js n db =
     (case select_by_id o_id n (ordersTable db) of
        Inl error \<Rightarrow> (Inl error, db)
      | Inr results \<Rightarrow>
          (case results of
             [] \<Rightarrow> (Inr None, db)
           | order # _ \<Rightarrow> (Inr (Some (order_of_row js order)), db)))"

definition order_updateData ::
  "'n NumberCodec \<Rightarrow> Date \<Rightarrow> 'n UpdateOrderInput \<Rightarrow> string Order \<Rightarrow> string Order" where
  "order_updateData js now input r =
     r\<lparr>o_updated_at := now,
       o_user_id := or_default (uo_user_id input) (o_user_id r),
       o_status := or_default (uo_status input) (o_status r),
       o_total_amount := (case uo_total_amount input of
                            None \<Rightarrow> o_total_amount r | Some v \<Rightarrow> toString js v),
       o_notes := or_default (uo_notes input) (o_notes r)\<rparr>"

definition updateOrder ::
  "'n NumberCodec \<Rightarrow> Date \<Rightarrow> 'n UpdateOrderInput \<Rightarrow> DB \<Rightarrow> 'n Order Result" where
  "updateOrder js now input db =
     (case (case uo_user_id input of
              None \<Rightarrow> None
            | Some uid \<Rightarrow>
                (let existingUser = select_where (\<lambda>r. u_id r = uid) (usersTable db)
                 in if length existingUser = 0 then Some (NotFound EUser uid) else None)) of
        Some e \<Rightarrow> (Inl e, db)
      | None \<Rightarrow>
        (let (result, t) = update_where (\<lambda>r. o_id r = uo_id input)
               (order_updateData js now input) (ordersTable db)
         in (case result of
               [] \<Rightarrow> (Inl (NotFound EOrder (uo_id input)), db\<lparr>ordersTable := t\<rparr>)
             | order # _ \<Rightarrow> (Inr (order_of_row js order), db\<lparr>ordersTable := t\<rparr>))))"

definition deleteOrder :: "int \<Rightarrow> DB \<Rightarrow> DeleteResult Result" where
  "deleteOrder i db =
     (let (result, t) = delete_where (\<lambda>r. o_id r = i) (ordersTable db)
      in (Inr \<lparr>success = (length result > 0)\<rparr>, db\<lparr>ordersTable := t\<rparr>))"

section \<open>Order item handlers (server/src/handlers/order-items.ts)\<close>

text \<open>\<open>{...orderItem, unit_price: parseFloat(orderItem.unit_price),
  subtotal: parseFloat(orderItem.subtotal)}\<close>\<close>

definition order_item_of_row :: "'n NumberCodec \<Rightarrow> string OrderItem \<Rightarrow> 'n OrderItem" where
  "order_item_of_row js item =
     \<lparr>oi_id = oi_id item, oi_order_id = oi_order_id item,
      oi_product_id = oi_product_id item, oi_quantity = oi_quantity item,
      oi_unit_price = parseFloat js (oi_unit_price item),
      oi_subtotal = parseFloat js (oi_subtotal item),
      oi_created_at = oi_created_at item\<rparr>"

definition order_item_values ::
  "'n NumberCodec \<Rightarrow> Date \<Rightarrow> 'n CreateOrderItemInput \<Rightarrow> int \<Rightarrow> string OrderItem" where
  "order_item_values js now input i =
     \<lparr>oi_id = i, oi_order_id = coi_order_id input,
      oi_product_id = coi_product_id input, oi_quantity = coi_quantity input,
      oi_unit_price = toString js (coi_unit_price input),
      oi_subtotal = toString js (coi_subtotal input),
      oi_created_at = now\<rparr>"

definition createOrderItem ::
  "'n NumberCodec \<Rightarrow> Date \<Rightarrow> 'n CreateOrderItemInput \<Rightarrow> DB \<Rightarrow> 'n OrderItem Result" where
  "createOrderItem js now input db =
     (let order = take 1 (select_where (\<lambda>r. o_id r = coi_order_id input) (ordersTable db))
      in if length order = 0
         then (Inl (DoesNotExist EOrder (coi_order_id input)), db)
         else
           (let product = take 1 (select_where (\<lambda>r. p_id r = coi_product_id input)
                                    (productsTable db))
            in if length product = 0
               then (Inl (DoesNotExist EProduct (coi_product_id input)), db)
               else
                 (let (result, t) = insert_returning (order_item_values js now input)
                        (orderItemsTable db)
                  in (case first_row result of
                        Inl e \<Rightarrow> (Inl e, db\<lparr>orderItemsTable := t\<rparr>)
                      | Inr orderItem \<Rightarrow>
                          (Inr (order_item_of_row js orderItem),
                           db\<lparr>orderItemsTable := t\<rparr>)))))"

definition getOrderItems :: "'n NumberCodec \<Rightarrow> DB \<Rightarrow> 'n OrderItem list Result" where
  "getOrderItems js db =
     (Inr (map (order_item_of_row js) (rows (orderItemsTable db))), db)"

definition getOrderItemById ::
  "'n NumberCodec \<Rightarrow> IdValue \<Rightarrow> DB \<Rightarrow> 'n OrderItem option Result" where
  "getOrderItemById js n db =
     (case select_by_id oi_id n (orderItemsTable db) of
        Inl error \<Rightarrow> (Inl error, db)
      | Inr selected \<Rightarrow>
          (case take 1 selected of
             [] \<Rightarrow> (Inr None, db)
           | item # _ \<Rightarrow> (Inr (Some (order_item_of_row js item)), db)))"

definition getOrderItemsByOrderId ::
  "'n NumberCodec \<Rightarrow> IdValue \<Rightarrow> DB \<Rightarrow> 'n OrderItem list Result" where
  "getOrderItemsByOrderId js n db =
     (case select_by_id oi_order_id n (orderItemsTable db) of
        Inl error \<Rightarrow> (Inl error, db)
      | Inr results \<Rightarrow> (Inr (map (order_item_of_row js) results), db))"

text \<open>\<open>updateOrderItem\<close> sets no timestamp, so its \<open>updateValues\<close> has no key when the
  input supplies none of the optional fields; \<open>.set(updateValues)\<close> then throws
  \<open>No values to set\<close>, after the three existence checks and before any write.\<close>

definition order_item_no_values :: "'n UpdateOrderItemInput \<Rightarrow> bool" where
  "order_item_no_values input \<longleftrightarrow>
     uoi_order_id input = None \<and> uoi_product_id input = None \<and>
     uoi_quantity input = None \<and> uoi_unit_price input = None \<and>
     uoi_subtotal input = None"

definition order_item_updateValues ::
  "'n NumberCodec \<Rightarrow> 'n UpdateOrderItemInput \<Rightarrow> string OrderItem \<Rightarrow> string OrderItem" where
  "order_item_updateValues js input r =
     r\<lparr>oi_order_id := or_default (uoi_order_id input) (oi_order_id r),
       oi_product_id := or_default (uoi_product_id input) (oi_product_id r),
       oi_quantity := or_default (uoi_quantity input) (oi_quantity r),
       oi_unit_price := (case uoi_unit_price input of
                           None \<Rightarrow> oi_unit_price r | Some v \<Rightarrow> toString js v),
       oi_subtotal := (case uoi_subtotal input of
                         None \<Rightarrow> oi_subtotal r | Some v \<Rightarrow> toString js v)\<rparr>"

definition updateOrderItem ::
  "'n NumberCodec \<Rightarrow> 'n UpdateOrderItemInput \<Rightarrow> DB \<Rightarrow> 'n OrderItem Result" where
  "updateOrderItem js input db =
     (let existing = take 1 (select_where (\<lambda>r. oi_id r = uoi_id input) (orderItemsTable db))
      in if length existing = 0
         then (Inl (DoesNotExist EOrderItem (uoi_id input)), db)
         else
          (case (case uoi_order_id input of
                   None \<Rightarrow> None
                 | Some oid \<Rightarrow>
                     (let order = take 1 (select_where (\<lambda>r. o_id r = oid) (ordersTable db))
                      in if length order = 0 then Some (DoesNotExist EOrder oid) else None)) of
             Some e \<Rightarrow> (Inl e, db)
           | None \<Rightarrow>
          (case (case uoi_product_id input of
                   None \<Rightarrow> None
                 | Some pid \<Rightarrow>
                     (let product = take 1 (select_where (\<lambda>r. p_id r = pid)
                                              (productsTable db))
                      in if length product = 0 then Some (DoesNotExist EProduct pid)
                         else None)) of
             Some e \<Rightarrow> (Inl e, db)
           | None \<Rightarrow>
               if order_item_no_values input
               then (Inl NoValuesToSet, db)
               else
               (let (results, t) = update_where (\<lambda>r. oi_id r = uoi_id input)
                      (order_item_updateValues js input) (orderItemsTable db)
                in (case first_row results of
                      Inl e \<Rightarrow> (Inl e, db\<lparr>orderItemsTable := t\<rparr>)
                    | Inr orderItem \<Rightarrow>
                        (Inr (order_item_of_row js orderItem),
                         db\<lparr>orderItemsTable := t\<rparr>))))))"

definition deleteOrderItem :: "int \<Rightarrow> DB \<Rightarrow> DeleteResult Result" where
  "deleteOrderItem i db =
     (let (result, t) = delete_where (\<lambda>r. oi_id r = i) (orderItemsTable db)
      in (Inr \<lparr>success = True\<rparr>, db\<lparr>orderItemsTable := t\<rparr>))"

section \<open>The router (server/src/index.ts)\<close>

text \<open>One constructor for each procedure of \<open>appRouter\<close>, with its input.\<close>

datatype 'n Call =
    Healthcheck
  | Users_create CreateUserInput
  | Users_getAll
  | Users_getById IdValue
  | Users_update UpdateUserInput
  | Users_delete int
  | Categories_create CreateCategoryInput
  | Categories_getAll
  | Categories_getById IdValue
  | Categories_update UpdateCategoryInput
  | Categories_delete int
  | Products_create "'n CreateProductInput"
  | Products_getAll
  | Products_getById IdValue
  | Products_update "'n UpdateProductInput"
  | Products_delete int
  | Orders_create "'n CreateOrderInput"
  | Orders_getAll
  | Orders_getById IdValue
  | Orders_update "'n UpdateOrderInput"
  | Orders_delete int
  | OrderItems_create "'n CreateOrderItemInput"
  | OrderItems_getAll
  | OrderItems_getById IdValue
  | OrderItems_getByOrderId IdValue
  | OrderItems_update "'n UpdateOrderItemInput"
  | OrderItems_delete int

text \<open>The storage that a call leaves, made at the clock reading \<open>now\<close>.\<close>

fun appRouter :: "'n NumberCodec \<Rightarrow> Date \<Rightarrow> 'n Call \<Rightarrow> DB \<Rightarrow> DB" where
  "appRouter js now Healthcheck db = db"
| "appRouter js now (Users_create input) db = snd (createUser now input db)"
| "appRouter js now Users_getAll db = snd (getUsers db)"
| "appRouter js now (Users_getById i) db = snd (getUserById i db)"
| "appRouter js now (Users_update input) db = snd (updateUser now input db)"
| "appRouter js now (Users_delete i) db = snd (deleteUser i db)"
| "appRouter js now (Categories_create input) db = snd (createCategory now input db)"
| "appRouter js now Categories_getAll db = snd (getCategories db)"
| "appRouter js now (Categories_getById i) db = snd (getCategoryById i db)"
| "appRouter js now (Categories_update input) db = snd (updateCategory now input db)"
| "appRouter js now (Categories_delete i) db = snd (deleteCategory i db)"
| "appRouter js now (Products_create input) db = snd (createProduct js now input db)"
| "appRouter js now Products_getAll db = snd (getProducts js db)"
| "appRouter js now (Products_getById i) db = snd (getProductById js i db)"
| "appRouter js now (Products_update input) db = snd (updateProduct js now input db)"
| "appRouter js now (Products_delete i) db = snd (deleteProduct i db)"
| "appRouter js now (Orders_create input) db = snd (createOrder js now input db)"
| "appRouter js now Orders_getAll db = snd (getOrders js db)"
| "appRouter js now (Orders_getById i) db = snd (getOrderById js i db)"
| "appRouter js now (Orders_update input) db = snd (updateOrder js now input db)"
| "appRouter js now (Orders_delete i) db = snd (deleteOrder i db)"
| "appRouter js now (OrderItems_create input) db = snd (createOrderItem js now input db)"
| "appRouter js now OrderItems_getAll db = snd (getOrderItems js db)"
| "appRouter js now (OrderItems_getById i) db = snd (getOrderItemById js i db)"
| "appRouter js now (OrderItems_getByOrderId i) db = snd (getOrderItemsByOrderId js i db)"
| "appRouter js now (OrderItems_update input) db = snd (updateOrderItem js input db)"
| "appRouter js now (OrderItems_delete i) db = snd (deleteOrderItem i db)"

text \<open>The states of the storage: the empty one, and the one any call leaves, at any
  clock reading.\<close>

inductive reachable :: "'n NumberCodec \<Rightarrow> DB \<Rightarrow> bool" for js :: "'n NumberCodec" where
  reachable_empty: "reachable js empty_db"
| reachable_call: "reachable js db \<Longrightarrow> reachable js (appRouter js now call db)"

text \<open>The states reached when the clock readings of successive calls never decrease;
  the \<open>Date\<close> is the latest reading.\<close>

inductive reachable_by :: "'n NumberCodec \<Rightarrow> Date \<Rightarrow> DB \<Rightarrow> bool"
  for js :: "'n NumberCodec" where
  reachable_by_empty: "reachable_by js t empty_db"
| reachable_by_call:
    "reachable_by js t db \<Longrightarrow> t \<le> now \<Longrightarrow> reachable_by js now (appRouter js now call db)"

section \<open>Invariants and frame conditions\<close>

text \<open>The keys of a table are distinct and below the next value of its sequence.\<close>

definition table_ok :: "('r \<Rightarrow> int) \<Rightarrow> 'r Table \<Rightarrow> bool" where
  "table_ok key t \<longleftrightarrow>
     distinct (map key (rows t)) \<and> (\<forall>r\<in>set (rows t). key r < next_id t)"

definition db_ok :: "DB \<Rightarrow> bool" where
  "db_ok db \<longleftrightarrow>
     table_ok u_id (usersTable db) \<and> table_ok c_id (categoriesTable db) \<and>
     table_ok p_id (productsTable db) \<and> table_ok o_id (ordersTable db) \<and>
     table_ok oi_id (orderItemsTable db)"

text \<open>Every row that carries \<open>updated_at\<close> was updated no earlier than it was created
  and no later than \<open>t\<close>.\<close>

definition stamps_ok :: "Date \<Rightarrow> DB \<Rightarrow> bool" where
  "stamps_ok t db \<longleftrightarrow>
     (\<forall>r\<in>set (rows (usersTable db)). u_created_at r \<le> u_updated_at r \<and> u_updated_at r \<le> t) \<and>
     (\<forall>r\<in>set (rows (categoriesTable db)).
         c_created_at r \<le> c_updated_at r \<and> c_updated_at r \<le> t) \<and>
     (\<forall>r\<in>set (rows (productsTable db)).
         p_created_at r \<le> p_updated_at r \<and> p_updated_at r \<le> t) \<and>
     (\<forall>r\<in>set (rows (ordersTable db)). o_created_at r \<le> o_updated_at r \<and> o_updated_at r \<le> t)"

text \<open>
  What a partial update is to do to a stored row, field by field, in the words of the
  specification: a field the input supplies takes the supplied value (a currency value
  as its text), every other field, the identity key and \<open>created_at\<close> keep the value
  of the prior row. \<open>updated_at\<close> is left to the theorems.
\<close>

definition user_patched :: "UpdateUserInput \<Rightarrow> User \<Rightarrow> User \<Rightarrow> bool" where
  "user_patched input old new \<longleftrightarrow>
     u_id new = u_id old \<and> u_created_at new = u_created_at old \<and>
     u_name new = (case uu_name input of None \<Rightarrow> u_name old | Some v \<Rightarrow> v) \<and>
     u_email new = (case uu_email input of None \<Rightarrow> u_email old | Some v \<Rightarrow> v) \<and>
     u_role new = (case uu_role input of None \<Rightarrow> u_role old | Some v \<Rightarrow> v) \<and>
     u_is_active new = (case uu_is_active input of None \<Rightarrow> u_is_active old | Some v \<Rightarrow> v)"

definition category_patched :: "UpdateCategoryInput \<Rightarrow> Category \<Rightarrow> Category \<Rightarrow> bool" where
  "category_patched input old new \<longleftrightarrow>
     c_id new = c_id old \<and> c_created_at new = c_created_at old \<and>
     c_name new = (case uc_name input of None \<Rightarrow> c_name old | Some v \<Rightarrow> v) \<and>
     c_description new =
       (case uc_description input of None \<Rightarrow> c_description old | Some v \<Rightarrow> v) \<and>
     c_is_active new = (case uc_is_active input of None \<Rightarrow> c_is_active old | Some v \<Rightarrow> v)"

definition product_patched ::
  "'n NumberCodec \<Rightarrow> 'n UpdateProductInput \<Rightarrow> string Product \<Rightarrow> string Product \<Rightarrow> bool" where
  "product_patched js input old new \<longleftrightarrow>
     p_id new = p_id old \<and> p_created_at new = p_created_at old \<and>
     p_name new = (case up_name input of None \<Rightarrow> p_name old | Some v \<Rightarrow> v) \<and>
     p_description new =
       (case up_description input of None \<Rightarrow> p_description old | Some v \<Rightarrow> v) \<and>
     p_price new = (case up_price input of None \<Rightarrow> p_price old | Some v \<Rightarrow> toString js v) \<and>
     p_stock_quantity new =
       (case up_stock_quantity input of None \<Rightarrow> p_stock_quantity old | Some v \<Rightarrow> v) \<and>
     p_category_id new =
       (case up_category_id input of None \<Rightarrow> p_category_id old | Some v \<Rightarrow> v) \<and>
     p_is_active new = (case up_is_active input of None \<Rightarrow> p_is_active old | Some v \<Rightarrow> v)"

definition order_patched ::
  "'n NumberCodec \<Rightarrow> 'n UpdateOrderInput \<Rightarrow> string Order \<Rightarrow> string Order \<Rightarrow> bool" where
  "order_patched js input old new \<longleftrightarrow>
     o_id new = o_id old \<and> o_created_at new = o_created_at old \<and>
     o_user_id new = (case uo_user_id input of None \<Rightarrow> o_user_id old | Some v \<Rightarrow> v) \<and>
     o_status new = (case uo_status input of None \<Rightarrow> o_status old | Some v \<Rightarrow> v) \<and>
     o_total_amount new =
       (case uo_total_amount input of None \<Rightarrow> o_total_amount old | Some v \<Rightarrow> toString js v) \<and>
     o_notes new = (case uo_notes input of None \<Rightarrow> o_notes old | Some v \<Rightarrow> v)"

definition order_item_patched ::
  "'n NumberCodec \<Rightarrow> 'n UpdateOrderItemInput \<Rightarrow> string OrderItem \<Rightarrow> string OrderItem \<Rightarrow> bool"
  where
  "order_item_patched js input old new \<longleftrightarrow>
     oi_id new = oi_id old \<and> oi_created_at new = oi_created_at old \<and>
     oi_order_id new = (case uoi_order_id input of None \<Rightarrow> oi_order_id old | Some v \<Rightarrow> v) \<and>
     oi_product_id new =
       (case uoi_product_id input of None \<Rightarrow> oi_product_id old | Some v \<Rightarrow> v) \<and>
     oi_quantity new = (case uoi_quantity input of None \<Rightarrow> oi_quantity old | Some v \<Rightarrow> v) \<and>
     oi_unit_price new =
       (case uoi_unit_price input of None \<Rightarrow> oi_unit_price old | Some v \<Rightarrow> toString js v) \<and>
     oi_subtotal new =
       (case uoi_subtotal input of None \<Rightarrow> oi_subtotal old | Some v \<Rightarrow> toString js v)"

section \<open>Example data\<close>

text \<open>Numbers for the examples: a \<open>Decimal\<close> is a number given by its decimal
  expansion, which is the text that \<open>toString\<close> writes and \<open>parseFloat\<close> reads.\<close>

datatype Decimal = Decimal string

fun decimal_text :: "Decimal \<Rightarrow> string" where
  "decimal_text (Decimal s) = s"

definition text_codec :: "Decimal NumberCodec" where
  "text_codec = \<lparr>toString = decimal_text, parseFloat = Decimal\<rparr>"

text \<open>The fixture of the order item tests: with one order item added.\<close>

definition demo_user :: User where
  "demo_user = \<lparr>u_id = 1, u_name = ''Test User'', u_email = ''test@example.com'',
     u_role = Role_user, u_is_active = True, u_created_at = 1000, u_updated_at = 1000\<rparr>"

definition demo_category :: Category where
  "demo_category = \<lparr>c_id = 1, c_name = ''Test Category'',
     c_description = Some ''A category for testing'', c_is_active = True,
     c_created_at = 1000, c_updated_at = 1000\<rparr>"

definition demo_product :: "string Product" where
  "demo_product = \<lparr>p_id = 1, p_name = ''Test Product'',
     p_description = Some ''A product for testing'', p_price = ''29.99'',
     p_stock_quantity = 100, p_category_id = Some 1, p_is_active = True,
     p_created_at = 1000, p_updated_at = 1000\<rparr>"

definition demo_order :: "string Order" where
  "demo_order = \<lparr>o_id = 1, o_user_id = 1, o_status = Status_pending,
     o_total_amount = ''59.98'', o_notes = Some ''Test order'',
     o_created_at = 1000, o_updated_at = 1000\<rparr>"

definition demo_item :: "string OrderItem" where
  "demo_item = \<lparr>oi_id = 1, oi_order_id = 1, oi_product_id = 1, oi_quantity = 2,
     oi_unit_price = ''29.99'', oi_subtotal = ''59.98'', oi_created_at = 1000\<rparr>"

definition demo_db :: DB where
  "demo_db = \<lparr>usersTable = \<lparr>rows = [demo_user], next_id = 2\<rparr>,
     categoriesTable = \<lparr>rows = [demo_category], next_id = 2\<rparr>,
     productsTable = \<lparr>rows = [demo_product], next_id = 2\<rparr>,
     ordersTable = \<lparr>rows = [demo_order], next_id = 2\<rparr>,
     orderItemsTable = \<lparr>rows = [demo_item], next_id = 2\<rparr>\<rparr>"












text \<open>Create inputs that leave every optional field out, and inputs whose optional
  text is the empty string.\<close>

definition user_input_minimal :: CreateUserInput where
  "user_input_minimal = \<lparr>cu_name = ''Jane Doe'', cu_email = ''jane@example.com'',
     cu_role = None, cu_is_active = None\<rparr>"

definition category_input_minimal :: CreateCategoryInput where
  "category_input_minimal = \<lparr>cc_name = ''Books'', cc_description = None,
     cc_is_active = None\<rparr>"

definition product_input_minimal :: "Decimal CreateProductInput" where
  "product_input_minimal = \<lparr>cp_name = ''Minimal Product'', cp_description = None,
     cp_price = Decimal ''9.99'', cp_stock_quantity = None, cp_category_id = None,
     cp_is_active = None\<rparr>"

definition order_input_minimal :: "Decimal CreateOrderInput" where
  "order_input_minimal = \<lparr>co_user_id = 1, co_status = None, co_total_amount = Decimal ''50'',
     co_notes = None\<rparr>"

definition category_input_empty :: CreateCategoryInput where
  "category_input_empty = \<lparr>cc_name = ''Books'', cc_description = Some (Some []),
     cc_is_active = None\<rparr>"

definition product_input_empty :: "Decimal CreateProductInput" where
  "product_input_empty = \<lparr>cp_name = ''Novel'', cp_description = Some (Some []),
     cp_price = Decimal ''9.99'', cp_stock_quantity = None, cp_category_id = None,
     cp_is_active = None\<rparr>"

definition order_input_empty :: "Decimal CreateOrderInput" where
  "order_input_empty = \<lparr>co_user_id = 1, co_status = None, co_total_amount = Decimal ''50'',
     co_notes = Some (Some [])\<rparr>"

definition category_update_empty :: UpdateCategoryInput where
  "category_update_empty = \<lparr>uc_id = 1, uc_name = None, uc_description = Some (Some []),
     uc_is_active = None\<rparr>"

definition product_update_empty :: "Decimal UpdateProductInput" where
  "product_update_empty = \<lparr>up_id = 1, up_name = None, up_description = Some (Some []),
     up_price = None, up_stock_quantity = None, up_category_id = None,
     up_is_active = None\<rparr>"

definition order_update_empty :: "Decimal UpdateOrderInput" where
  "order_update_empty = \<lparr>uo_id = 1, uo_user_id = None, uo_status = None,
     uo_total_amount = None, uo_notes = Some (Some [])\<rparr>"

definition user_update_name :: UpdateUserInput where
  "user_update_name = \<lparr>uu_id = 1, uu_name = Some ''Only Name Updated'', uu_email = None,
     uu_role = None, uu_is_active = None\<rparr>"

definition item_update_quantity :: "Decimal UpdateOrderItemInput" where
  "item_update_quantity = \<lparr>uoi_id = 1, uoi_order_id = None, uoi_product_id = None,
     uoi_quantity = Some 5, uoi_unit_price = None, uoi_subtotal = Some (Decimal ''149.95'')\<rparr>"

text \<open>A state reached from the empty storage: a user, a category, a product and an
  order were created, in this order, at the clock reading 1000.\<close>

definition seeded_db :: DB where
  "seeded_db =
     appRouter text_codec 1000 (Orders_create order_input_minimal)
       (appRouter text_codec 1000 (Products_create product_input_minimal)
          (appRouter text_codec 1000 (Categories_create category_input_minimal)
             (appRouter text_codec 1000 (Users_create user_input_minimal) empty_db)))"

text \<open>Two states in which a category was created at the clock reading 2000 and then
  updated: at the reading 1000, and at the same reading 2000.\<close>

definition backdated_db :: DB where
  "backdated_db =
     appRouter text_codec 1000 (Categories_update category_update_empty)
       (appRouter text_codec 2000 (Categories_create category_input_minimal) empty_db)"

definition same_reading_db :: DB where
  "same_reading_db =
     appRouter text_codec 2000 (Categories_update category_update_empty)
       (appRouter text_codec 2000 (Categories_create category_input_minimal) empty_db)"

definition item_input_ok :: "Decimal CreateOrderItemInput" where
  "item_input_ok = \<lparr>coi_order_id = 1, coi_product_id = 1, coi_quantity = 2,
     coi_unit_price = Decimal ''29.99'', coi_subtotal = Decimal ''59.98''\<rparr>"

text \<open>The product of the tests, with the price 19.99.\<close>

definition product_input_test :: "Decimal CreateProductInput" where
  "product_input_test = \<lparr>cp_name = ''Test Product'',
     cp_description = Some (Some ''A product for testing''), cp_price = Decimal ''19.99'',
     cp_stock_quantity = Some 100, cp_category_id = Some None, cp_is_active = Some True\<rparr>"

section \<open>Properties\<close>

subsection \<open>The example storage\<close>

lemma demo_rows:
  "rows (usersTable demo_db) = [demo_user]"
  "rows (categoriesTable demo_db) = [demo_category]"
  "rows (productsTable demo_db) = [demo_product]"
  "rows (ordersTable demo_db) = [demo_order]"
  "rows (orderItemsTable demo_db) = [demo_item]"
  by (simp_all add: demo_db_def)

lemma demo_ids:
  "u_id demo_user = 1" "c_id demo_category = 1" "p_id demo_product = 1"
  "o_id demo_order = 1" "oi_id demo_item = 1"
  by (simp_all add: demo_user_def demo_category_def demo_product_def demo_order_def
      demo_item_def)

lemma demo_next_ids:
  "next_id (usersTable demo_db) = 2" "next_id (categoriesTable demo_db) = 2"
  "next_id (productsTable demo_db) = 2" "next_id (ordersTable demo_db) = 2"
  "next_id (orderItemsTable demo_db) = 2"
  by (simp_all add: demo_db_def)

subsection \<open>Reading the first row of a selection\<close>

lemma filter_first_cases:
  obtains (none) "filter P xs = []" "\<forall>r\<in>set xs. \<not> P r"
        | (some) r rs where "filter P xs = r # rs" "r \<in> set xs" "P r"
proof (cases "filter P xs")
  case Nil
  then have "\<forall>r\<in>set xs. \<not> P r" by (simp add: filter_empty_conv)
  with Nil show ?thesis by (rule none)
next
  case (Cons r rs)
  then have "r \<in> set (filter P xs)" by simp
  then have "r \<in> set xs" "P r" by simp_all
  with Cons show ?thesis by (rule some)
qed

lemma getUserById_cases:
  "(if \<exists>r\<in>set (rows (usersTable db)). u_id r = i
    then \<exists>r\<in>set (rows (usersTable db)).
           u_id r = i \<and> getUserById (KeyValue i) db = (Inr (Some r), db)
    else getUserById (KeyValue i) db = (Inr None, db))"
  by (cases rule: filter_first_cases [of "\<lambda>r. u_id r = i" "rows (usersTable db)"])
     (auto simp: getUserById_def select_by_id_def select_where_def)

lemma getCategoryById_cases:
  "(if \<exists>r\<in>set (rows (categoriesTable db)). c_id r = i
    then \<exists>r\<in>set (rows (categoriesTable db)).
           c_id r = i \<and> getCategoryById (KeyValue i) db = (Inr (Some r), db)
    else getCategoryById (KeyValue i) db = (Inr None, db))"
  by (cases rule: filter_first_cases [of "\<lambda>r. c_id r = i" "rows (categoriesTable db)"])
     (auto simp: getCategoryById_def select_by_id_def select_where_def)

lemma getProductById_cases:
  "(if \<exists>r\<in>set (rows (productsTable db)). p_id r = i
    then \<exists>r\<in>set (rows (productsTable db)).
           p_id r = i \<and> getProductById js (KeyValue i) db = (Inr (Some (product_of_row js r)), db)
    else getProductById js (KeyValue i) db = (Inr None, db))"
  by (cases rule: filter_first_cases [of "\<lambda>r. p_id r = i" "rows (productsTable db)"])
     (auto simp: getProductById_def select_by_id_def select_where_def)

lemma getOrderById_cases:
  "(if \<exists>r\<in>set (rows (ordersTable db)). o_id r = i
    then \<exists>r\<in>set (rows (ordersTable db)).
           o_id r = i \<and> getOrderById js (KeyValue i) db = (Inr (Some (order_of_row js r)), db)
    else getOrderById js (KeyValue i) db = (Inr None, db))"
  by (cases rule: filter_first_cases [of "\<lambda>r. o_id r = i" "rows (ordersTable db)"])
     (auto simp: getOrderById_def select_by_id_def select_where_def)

lemma getOrderItemById_cases:
  "(if \<exists>r\<in>set (rows (orderItemsTable db)). oi_id r = i
    then \<exists>r\<in>set (rows (orderItemsTable db)).
           oi_id r = i \<and>
           getOrderItemById js (KeyValue i) db = (Inr (Some (order_item_of_row js r)), db)
    else getOrderItemById js (KeyValue i) db = (Inr None, db))"
  by (cases rule: filter_first_cases [of "\<lambda>r. oi_id r = i" "rows (orderItemsTable db)"])
     (auto simp: getOrderItemById_def select_by_id_def select_where_def)

subsection \<open>Claim C8: getById\<close>

lemma getById_not_key:
  "getUserById NotKeyValue db = (Inl StorageError, db)"
  "getCategoryById NotKeyValue db = (Inl StorageError, db)"
  "getProductById js NotKeyValue db = (Inl StorageError, db)"
  "getOrderById js NotKeyValue db = (Inl StorageError, db)"
  "getOrderItemById js NotKeyValue db = (Inl StorageError, db)"
  by (simp_all add: getUserById_def getCategoryById_def getProductById_def
      getOrderById_def getOrderItemById_def select_by_id_def)

text \<open>
  C8, as stated, fails in its last words, \<open>for any id value\<close>.
  \<open>getByIdInputSchema\<close> admits every number, and for a number that the integer key
  column cannot hold (the id 1.5, say) the storage engine rejects the query; every
  \<open>getById\<close> handler catches that error, logs it and throws it again. No row has
  such an id, so this is an error raised for a missing id.
\<close>

theorem getById_not_key_counterexample:
  "getUserById NotKeyValue demo_db = (Inl StorageError, demo_db) \<and>
   getCategoryById NotKeyValue demo_db = (Inl StorageError, demo_db) \<and>
   getProductById text_codec NotKeyValue demo_db = (Inl StorageError, demo_db) \<and>
   getOrderById text_codec NotKeyValue demo_db = (Inl StorageError, demo_db) \<and>
   getOrderItemById text_codec NotKeyValue demo_db = (Inl StorageError, demo_db)"
  by (simp add: getUserById_def getCategoryById_def getProductById_def
      getOrderById_def getOrderItemById_def select_by_id_def)

text \<open>
  C8, amended. For every entity and every id that is a value of the integer key
  column, \<open>getById\<close> returns a stored row with that id, field by field and with its
  currency fields parsed, when one exists, and the explicit absence \<open>null\<close>
  (\<open>Inr None\<close>) when none does; in both cases the result is a value, never a thrown
  error. For a number that is not a value of the key column, \<open>getById\<close> throws the
  error of the storage engine. The storage is left as it was in every case.
\<close>

theorem getById_row_or_null:
  "(if \<exists>r\<in>set (rows (usersTable db)). u_id r = i
    then \<exists>r\<in>set (rows (usersTable db)).
           u_id r = i \<and> getUserById (KeyValue i) db = (Inr (Some r), db)
    else getUserById (KeyValue i) db = (Inr None, db)) \<and>
   (if \<exists>r\<in>set (rows (categoriesTable db)). c_id r = i
    then \<exists>r\<in>set (rows (categoriesTable db)).
           c_id r = i \<and> getCategoryById (KeyValue i) db = (Inr (Some r), db)
    else getCategoryById (KeyValue i) db = (Inr None, db)) \<and>
   (if \<exists>r\<in>set (rows (productsTable db)). p_id r = i
    then \<exists>r\<in>set (rows (productsTable db)).
           p_id r = i \<and>
           getProductById js (KeyValue i) db =
             (Inr (Some \<lparr>p_id = p_id r, p_name = p_name r, p_description = p_description r,
               p_price = parseFloat js (p_price r),
               p_stock_quantity = p_stock_quantity r,
               p_category_id = p_category_id r, p_is_active = p_is_active r,
               p_created_at = p_created_at r, p_updated_at = p_updated_at r\<rparr>), db)
    else getProductById js (KeyValue i) db = (Inr None, db)) \<and>
   (if \<exists>r\<in>set (rows (ordersTable db)). o_id r = i
    then \<exists>r\<in>set (rows (ordersTable db)).
           o_id r = i \<and>
           getOrderById js (KeyValue i) db =
             (Inr (Some \<lparr>o_id = o_id r, o_user_id = o_user_id r, o_status = o_status r,
               o_total_amount = parseFloat js (o_total_amount r),
               o_notes = o_notes r,
               o_created_at = o_created_at r, o_updated_at = o_updated_at r\<rparr>), db)
    else getOrderById js (KeyValue i) db = (Inr None, db)) \<and>
   (if \<exists>r\<in>set (rows (orderItemsTable db)). oi_id r = i
    then \<exists>r\<in>set (rows (orderItemsTable db)).
           oi_id r = i \<and>
           getOrderItemById js (KeyValue i) db =
             (Inr (Some \<lparr>oi_id = oi_id r, oi_order_id = oi_order_id r,
               oi_product_id = oi_product_id r, oi_quantity = oi_quantity r,
               oi_unit_price = parseFloat js (oi_unit_price r),
               oi_subtotal = parseFloat js (oi_subtotal r),
               oi_created_at = oi_created_at r\<rparr>), db)
    else getOrderItemById js (KeyValue i) db = (Inr None, db)) \<and>
   getUserById NotKeyValue db = (Inl StorageError, db) \<and>
   getCategoryById NotKeyValue db = (Inl StorageError, db) \<and>
   getProductById js NotKeyValue db = (Inl StorageError, db) \<and>
   getOrderById js NotKeyValue db = (Inl StorageError, db) \<and>
   getOrderItemById js NotKeyValue db = (Inl StorageError, db)"
  using getUserById_cases [of db i] getCategoryById_cases [of db i]
    getProductById_cases [of db i js, unfolded product_of_row_def]
    getOrderById_cases [of db i js, unfolded order_of_row_def]
    getOrderItemById_cases [of db i js, unfolded order_item_of_row_def]
    getById_not_key(1,2) [of db] getById_not_key(3-5) [of js db]
  by (intro conjI)

theorem getById_row_or_null_witness:
  "getUserById (KeyValue 1) demo_db =
     (Inr (Some \<lparr>u_id = 1, u_name = ''Test User'', u_email = ''test@example.com'',
        u_role = Role_user, u_is_active = True, u_created_at = 1000,
        u_updated_at = 1000\<rparr>), demo_db) \<and>
   getUserById (KeyValue 999) demo_db = (Inr None, demo_db) \<and>
   getCategoryById (KeyValue 1) demo_db =
     (Inr (Some \<lparr>c_id = 1, c_name = ''Test Category'',
        c_description = Some ''A category for testing'', c_is_active = True,
        c_created_at = 1000, c_updated_at = 1000\<rparr>), demo_db) \<and>
   getCategoryById (KeyValue 999) demo_db = (Inr None, demo_db) \<and>
   getProductById text_codec (KeyValue 1) demo_db =
     (Inr (Some \<lparr>p_id = 1, p_name = ''Test Product'',
        p_description = Some ''A product for testing'', p_price = Decimal ''29.99'',
        p_stock_quantity = 100, p_category_id = Some 1, p_is_active = True,
        p_created_at = 1000, p_updated_at = 1000\<rparr>), demo_db) \<and>
   getProductById text_codec (KeyValue 999) demo_db = (Inr None, demo_db) \<and>
   getOrderById text_codec (KeyValue 1) demo_db =
     (Inr (Some \<lparr>o_id = 1, o_user_id = 1, o_status = Status_pending,
        o_total_amount = Decimal ''59.98'', o_notes = Some ''Test order'',
        o_created_at = 1000, o_updated_at = 1000\<rparr>), demo_db) \<and>
   getOrderById text_codec (KeyValue 999) demo_db = (Inr None, demo_db) \<and>
   getOrderItemById text_codec (KeyValue 1) demo_db =
     (Inr (Some \<lparr>oi_id = 1, oi_order_id = 1, oi_product_id = 1, oi_quantity = 2,
        oi_unit_price = Decimal ''29.99'', oi_subtotal = Decimal ''59.98'',
        oi_created_at = 1000\<rparr>), demo_db) \<and>
   getOrderItemById text_codec (KeyValue 999) demo_db = (Inr None, demo_db) \<and>
   getUserById NotKeyValue demo_db = (Inl StorageError, demo_db)"
  using getById_row_or_null [where db = demo_db and i = 1 and js = text_codec]
    getById_row_or_null [where db = demo_db and i = 999 and js = text_codec]
  by (simp add: demo_db_def demo_user_def demo_category_def demo_product_def
      demo_order_def demo_item_def text_codec_def)

subsection \<open>Claim C1: delete\<close>









subsection \<open>Claim C2: create checks its references before inserting\<close>






subsection \<open>The update handlers, case by case\<close>

lemma update_where_none:
  assumes "\<forall>r\<in>set (rows t). \<not> P r"
  shows "update_where P f t = ([], t)"
proof -
  from assms have "filter P (rows t) = []" by (simp add: filter_empty_conv)
  moreover from assms have "map (\<lambda>r. if P r then f r else r) (rows t) = rows t"
    by (simp add: map_idI)
  ultimately show ?thesis by (simp add: update_where_def)
qed

lemma update_where_some:
  assumes "\<exists>r\<in>set (rows t). P r"
  shows "\<exists>r\<in>set (rows t). P r \<and> (\<exists>rs. update_where P f t =
           (f r # rs, t\<lparr>rows := map (\<lambda>x. if P x then f x else x) (rows t)\<rparr>))"
proof (cases rule: filter_first_cases [of P "rows t"])
  case none
  with assms show ?thesis by simp
next
  case (some r rs)
  then show ?thesis by (auto simp: update_where_def)
qed

lemma key_unique:
  assumes "distinct (map key xs)" "x \<in> set xs" "y \<in> set xs" "key x = key y"
  shows "x = y"
  using assms by (auto simp: distinct_map dest: inj_onD)

lemma updateCategory_cases:
  "(if \<exists>r\<in>set (rows (categoriesTable db)). c_id r = uc_id input
    then \<exists>r\<in>set (rows (categoriesTable db)). c_id r = uc_id input \<and>
      updateCategory now input db =
        (Inr (category_updateData now input r),
         db\<lparr>categoriesTable := (categoriesTable db)\<lparr>rows :=
              map (\<lambda>x. if c_id x = uc_id input then category_updateData now input x else x)
                (rows (categoriesTable db))\<rparr>\<rparr>)
    else updateCategory now input db = (Inl (NotFound ECategory (uc_id input)), db))"
proof (cases "\<exists>r\<in>set (rows (categoriesTable db)). c_id r = uc_id input")
  case True
  from update_where_some [OF this, of "category_updateData now input"] True
  show ?thesis by (auto simp: updateCategory_def)
next
  case False
  then have "update_where (\<lambda>r. c_id r = uc_id input) (category_updateData now input)
      (categoriesTable db) = ([], categoriesTable db)"
    by (intro update_where_none) simp
  with False show ?thesis by (simp add: updateCategory_def)
qed

lemma updateProduct_cases:
  "(if \<exists>r\<in>set (rows (productsTable db)). p_id r = up_id input
    then \<exists>r\<in>set (rows (productsTable db)). p_id r = up_id input \<and>
      updateProduct js now input db =
        (Inr (product_of_row js (product_updateValues js now input r)),
         db\<lparr>productsTable := (productsTable db)\<lparr>rows :=
              map (\<lambda>x. if p_id x = up_id input then product_updateValues js now input x else x)
                (rows (productsTable db))\<rparr>\<rparr>)
    else updateProduct js now input db = (Inl (NotFound EProduct (up_id input)), db))"
proof (cases "\<exists>r\<in>set (rows (productsTable db)). p_id r = up_id input")
  case True
  from update_where_some [OF this, of "product_updateValues js now input"] True
  show ?thesis by (auto simp: updateProduct_def)
next
  case False
  then have "update_where (\<lambda>r. p_id r = up_id input) (product_updateValues js now input)
      (productsTable db) = ([], productsTable db)"
    by (intro update_where_none) simp
  with False show ?thesis by (simp add: updateProduct_def)
qed

lemma updateUser_cases:
  "(if \<exists>r\<in>set (rows (usersTable db)). u_id r = uu_id input
    then \<exists>r\<in>set (rows (usersTable db)). u_id r = uu_id input \<and>
      updateUser now input db =
        (Inr (user_updateValues now input r),
         db\<lparr>usersTable := (usersTable db)\<lparr>rows :=
              map (\<lambda>x. if u_id x = uu_id input then user_updateValues now input x else x)
                (rows (usersTable db))\<rparr>\<rparr>)
    else updateUser now input db = (Inl (NotFound EUser (uu_id input)), db))"
proof (cases "\<exists>r\<in>set (rows (usersTable db)). u_id r = uu_id input")
  case True
  with getUserById_cases [of db "uu_id input"]
  obtain r0 where "getUserById (KeyValue (uu_id input)) db = (Inr (Some r0), db)" by auto
  with update_where_some [OF True, of "user_updateValues now input"] True
  show ?thesis by (auto simp: updateUser_def first_row_def)
next
  case False
  with getUserById_cases [of db "uu_id input"]
  have "getUserById (KeyValue (uu_id input)) db = (Inr None, db)" by simp
  with False show ?thesis by (simp add: updateUser_def)
qed

lemma updateOrder_missing_user:
  assumes "uo_user_id input = Some uid"
    and "\<forall>r\<in>set (rows (usersTable db)). u_id r \<noteq> uid"
  shows "updateOrder js now input db = (Inl (NotFound EUser uid), db)"
  using assms by (simp add: updateOrder_def select_where_def filter_empty_conv)

lemma updateOrder_cases:
  assumes "\<forall>uid. uo_user_id input = Some uid \<longrightarrow>
             (\<exists>r\<in>set (rows (usersTable db)). u_id r = uid)"
  shows "(if \<exists>r\<in>set (rows (ordersTable db)). o_id r = uo_id input
    then \<exists>r\<in>set (rows (ordersTable db)). o_id r = uo_id input \<and>
      updateOrder js now input db =
        (Inr (order_of_row js (order_updateData js now input r)),
         db\<lparr>ordersTable := (ordersTable db)\<lparr>rows :=
              map (\<lambda>x. if o_id x = uo_id input then order_updateData js now input x else x)
                (rows (ordersTable db))\<rparr>\<rparr>)
    else updateOrder js now input db = (Inl (NotFound EOrder (uo_id input)), db))"
proof -
  have chk: "(case uo_user_id input of None \<Rightarrow> None
     | Some uid \<Rightarrow>
         (let existingUser = select_where (\<lambda>r. u_id r = uid) (usersTable db)
          in if length existingUser = 0 then Some (NotFound EUser uid) else None)) = None"
    using assms by (auto simp: select_where_def filter_empty_conv split: option.splits)
  show ?thesis
  proof (cases "\<exists>r\<in>set (rows (ordersTable db)). o_id r = uo_id input")
    case True
    from update_where_some [OF this, of "order_updateData js now input"] True
    show ?thesis by (auto simp: updateOrder_def chk)
  next
    case False
    then have "update_where (\<lambda>r. o_id r = uo_id input) (order_updateData js now input)
        (ordersTable db) = ([], ordersTable db)"
      by (intro update_where_none) simp
    with False show ?thesis by (simp add: updateOrder_def chk)
  qed
qed




lemma updateOrderItem_no_values:
  assumes "\<exists>r\<in>set (rows (orderItemsTable db)). oi_id r = uoi_id input"
    and "order_item_no_values input"
  shows "updateOrderItem js input db = (Inl NoValuesToSet, db)"
  using assms
  by (simp add: updateOrderItem_def select_where_def filter_empty_conv
      order_item_no_values_def)

lemma updateOrderItem_ok:
  assumes "\<exists>r\<in>set (rows (orderItemsTable db)). oi_id r = uoi_id input"
    and "\<forall>oid. uoi_order_id input = Some oid \<longrightarrow>
           (\<exists>r\<in>set (rows (ordersTable db)). o_id r = oid)"
    and "\<forall>pid. uoi_product_id input = Some pid \<longrightarrow>
           (\<exists>r\<in>set (rows (productsTable db)). p_id r = pid)"
    and "\<not> order_item_no_values input"
  shows "\<exists>r\<in>set (rows (orderItemsTable db)). oi_id r = uoi_id input \<and>
      updateOrderItem js input db =
        (Inr (order_item_of_row js (order_item_updateValues js input r)),
         db\<lparr>orderItemsTable := (orderItemsTable db)\<lparr>rows :=
              map (\<lambda>x. if oi_id x = uoi_id input then order_item_updateValues js input x else x)
                (rows (orderItemsTable db))\<rparr>\<rparr>)"
proof -
  have c1: "(case uoi_order_id input of None \<Rightarrow> None
     | Some oid \<Rightarrow>
         (let order = take 1 (select_where (\<lambda>r. o_id r = oid) (ordersTable db))
          in if length order = 0 then Some (DoesNotExist EOrder oid) else None)) = None"
    using assms(2) by (auto simp: select_where_def filter_empty_conv split: option.splits)
  have c2: "(case uoi_product_id input of None \<Rightarrow> None
     | Some pid \<Rightarrow>
         (let product = take 1 (select_where (\<lambda>r. p_id r = pid) (productsTable db))
          in if length product = 0 then Some (DoesNotExist EProduct pid) else None)) = None"
    using assms(3) by (auto simp: select_where_def filter_empty_conv split: option.splits)
  have c0: "length (take 1 (select_where (\<lambda>r. oi_id r = uoi_id input) (orderItemsTable db))) \<noteq> 0"
    using assms(1) by (simp add: select_where_def filter_empty_conv)
  from update_where_some [OF assms(1), of "order_item_updateValues js input"]
  show ?thesis
    using c0 assms(4) by (auto simp: updateOrderItem_def c1 c2 first_row_def)
qed



subsection \<open>Claim C3: update checks its target and its references\<close>




subsection \<open>The create handlers\<close>

lemma insert_returning_eq:
  "insert_returning mk t =
     ([mk (next_id t)], \<lparr>rows = rows t @ [mk (next_id t)], next_id = next_id t + 1\<rparr>)"
  by (simp add: insert_returning_def Let_def)

lemma createUser_eq:
  "createUser now input db =
     (Inr (user_values now input (next_id (usersTable db))),
      db\<lparr>usersTable := \<lparr>rows = rows (usersTable db) @
                             [user_values now input (next_id (usersTable db))],
                          next_id = next_id (usersTable db) + 1\<rparr>\<rparr>)"
  by (simp add: createUser_def insert_returning_eq first_row_def)

lemma createCategory_eq:
  "createCategory now input db =
     (Inr (category_values now input (next_id (categoriesTable db))),
      db\<lparr>categoriesTable := \<lparr>rows = rows (categoriesTable db) @
                             [category_values now input (next_id (categoriesTable db))],
                          next_id = next_id (categoriesTable db) + 1\<rparr>\<rparr>)"
  by (simp add: createCategory_def insert_returning_eq first_row_def)

lemma createProduct_eq:
  "createProduct js now input db =
     (Inr (product_of_row js (product_values js now input (next_id (productsTable db)))),
      db\<lparr>productsTable := \<lparr>rows = rows (productsTable db) @
                             [product_values js now input (next_id (productsTable db))],
                          next_id = next_id (productsTable db) + 1\<rparr>\<rparr>)"
  by (simp add: createProduct_def insert_returning_eq first_row_def)

lemma createOrder_eq:
  assumes "\<exists>r\<in>set (rows (usersTable db)). u_id r = co_user_id input"
  shows "createOrder js now input db =
     (Inr (order_of_row js (order_values js now input (next_id (ordersTable db)))),
      db\<lparr>ordersTable := \<lparr>rows = rows (ordersTable db) @
                             [order_values js now input (next_id (ordersTable db))],
                          next_id = next_id (ordersTable db) + 1\<rparr>\<rparr>)"
  using assms
  by (simp add: createOrder_def insert_returning_eq first_row_def select_where_def
      filter_empty_conv)

lemma createOrderItem_eq:
  assumes "\<exists>r\<in>set (rows (ordersTable db)). o_id r = coi_order_id input"
    and "\<exists>r\<in>set (rows (productsTable db)). p_id r = coi_product_id input"
  shows "createOrderItem js now input db =
     (Inr (order_item_of_row js
             (order_item_values js now input (next_id (orderItemsTable db)))),
      db\<lparr>orderItemsTable := \<lparr>rows = rows (orderItemsTable db) @
                     [order_item_values js now input (next_id (orderItemsTable db))],
                          next_id = next_id (orderItemsTable db) + 1\<rparr>\<rparr>)"
  using assms
  by (simp add: createOrderItem_def insert_returning_eq first_row_def select_where_def
      filter_empty_conv)

subsection \<open>Claim C6: what create returns\<close>

lemma createOrder_stamps:
  assumes "fst (createOrder js now input db) = Inr ord"
  shows "o_created_at ord \<le> o_updated_at ord"
proof (cases "\<exists>r\<in>set (rows (usersTable db)). u_id r = co_user_id input")
  case True
  from createOrder_eq [OF True, of js now] assms show ?thesis
    by (auto simp: order_of_row_def order_values_def)
next
  case False
  then have "select_where (\<lambda>r. u_id r = co_user_id input) (usersTable db) = []"
    by (simp add: select_where_def filter_empty_conv)
  with assms show ?thesis by (simp add: createOrder_def)
qed

text \<open>
  C6. For every input, \<open>createUser\<close>, \<open>createCategory\<close> and \<open>createProduct\<close>,
  \<open>createOrder\<close> when its user exists, and \<open>createOrderItem\<close> when its order and
  product exist, append exactly one row to their table and return it in full (currency
  fields parsed back from the text stored). In that row the identity key is the one the
  storage generated (the next value of the table's sequence, which moves on by one),
  every given field is the input's, every omitted optional field holds its default
  (role \<open>user\<close>, \<open>is_active\<close> true, \<open>stock_quantity\<close> 0, status \<open>pending\<close>,
  \<open>null\<close> for the optional text and category), and the timestamps are the storage
  clock's reading. Whenever a create returns a record that carries both timestamps,
  \<open>created_at \<le> updated_at\<close>.
\<close>

theorem create_applies_defaults:
  "createUser now uin db =
     (Inr \<lparr>u_id = next_id (usersTable db), u_name = cu_name uin, u_email = cu_email uin,
          u_role = (case cu_role uin of None \<Rightarrow> Role_user | Some v \<Rightarrow> v),
          u_is_active = (case cu_is_active uin of None \<Rightarrow> True | Some v \<Rightarrow> v),
          u_created_at = now, u_updated_at = now\<rparr>,
      db\<lparr>usersTable := \<lparr>rows = rows (usersTable db) @
         [\<lparr>u_id = next_id (usersTable db), u_name = cu_name uin, u_email = cu_email uin,
          u_role = (case cu_role uin of None \<Rightarrow> Role_user | Some v \<Rightarrow> v),
          u_is_active = (case cu_is_active uin of None \<Rightarrow> True | Some v \<Rightarrow> v),
          u_created_at = now, u_updated_at = now\<rparr>],
        next_id = next_id (usersTable db) + 1\<rparr>\<rparr>) \<and>
   createCategory now cin db =
     (Inr \<lparr>c_id = next_id (categoriesTable db), c_name = cc_name cin,
          c_description =
            (case cc_description cin of None \<Rightarrow> None | Some None \<Rightarrow> None
             | Some (Some s) \<Rightarrow> if s = [] then None else Some s),
          c_is_active = (case cc_is_active cin of None \<Rightarrow> True | Some v \<Rightarrow> v),
          c_created_at = now, c_updated_at = now\<rparr>,
      db\<lparr>categoriesTable := \<lparr>rows = rows (categoriesTable db) @
         [\<lparr>c_id = next_id (categoriesTable db), c_name = cc_name cin,
          c_description =
            (case cc_description cin of None \<Rightarrow> None | Some None \<Rightarrow> None
             | Some (Some s) \<Rightarrow> if s = [] then None else Some s),
          c_is_active = (case cc_is_active cin of None \<Rightarrow> True | Some v \<Rightarrow> v),
          c_created_at = now, c_updated_at = now\<rparr>],
        next_id = next_id (categoriesTable db) + 1\<rparr>\<rparr>) \<and>
   createProduct js now pin db =
     (Inr \<lparr>p_id = next_id (productsTable db), p_name = cp_name pin,
          p_description =
            (case cp_description pin of None \<Rightarrow> None | Some None \<Rightarrow> None
             | Some (Some s) \<Rightarrow> if s = [] then None else Some s),
          p_price = parseFloat js (toString js (cp_price pin)),
          p_stock_quantity = (case cp_stock_quantity pin of None \<Rightarrow> 0 | Some v \<Rightarrow> v),
          p_category_id =
            (case cp_category_id pin of None \<Rightarrow> None | Some None \<Rightarrow> None
             | Some (Some n) \<Rightarrow> if n = 0 then None else Some n),
          p_is_active = (case cp_is_active pin of None \<Rightarrow> True | Some v \<Rightarrow> v),
          p_created_at = now, p_updated_at = now\<rparr>,
      db\<lparr>productsTable := \<lparr>rows = rows (productsTable db) @
         [\<lparr>p_id = next_id (productsTable db), p_name = cp_name pin,
          p_description =
            (case cp_description pin of None \<Rightarrow> None | Some None \<Rightarrow> None
             | Some (Some s) \<Rightarrow> if s = [] then None else Some s),
          p_price = toString js (cp_price pin),
          p_stock_quantity = (case cp_stock_quantity pin of None \<Rightarrow> 0 | Some v \<Rightarrow> v),
          p_category_id =
            (case cp_category_id pin of None \<Rightarrow> None | Some None \<Rightarrow> None
             | Some (Some n) \<Rightarrow> if n = 0 then None else Some n),
          p_is_active = (case cp_is_active pin of None \<Rightarrow> True | Some v \<Rightarrow> v),
          p_created_at = now, p_updated_at = now\<rparr>],
        next_id = next_id (productsTable db) + 1\<rparr>\<rparr>) \<and>
   ((\<exists>r\<in>set (rows (usersTable db)). u_id r = co_user_id oin) \<longrightarrow>
    createOrder js now oin db =
     (Inr \<lparr>o_id = next_id (ordersTable db), o_user_id = co_user_id oin,
          o_status = (case co_status oin of None \<Rightarrow> Status_pending | Some v \<Rightarrow> v),
          o_total_amount = parseFloat js (toString js (co_total_amount oin)),
          o_notes =
            (case co_notes oin of None \<Rightarrow> None | Some None \<Rightarrow> None
             | Some (Some s) \<Rightarrow> if s = [] then None else Some s),
          o_created_at = now, o_updated_at = now\<rparr>,
      db\<lparr>ordersTable := \<lparr>rows = rows (ordersTable db) @
         [\<lparr>o_id = next_id (ordersTable db), o_user_id = co_user_id oin,
          o_status = (case co_status oin of None \<Rightarrow> Status_pending | Some v \<Rightarrow> v),
          o_total_amount = toString js (co_total_amount oin),
          o_notes =
            (case co_notes oin of None \<Rightarrow> None | Some None \<Rightarrow> None
             | Some (Some s) \<Rightarrow> if s = [] then None else Some s),
          o_created_at = now, o_updated_at = now\<rparr>],
        next_id = next_id (ordersTable db) + 1\<rparr>\<rparr>)) \<and>
   ((\<exists>r\<in>set (rows (ordersTable db)). o_id r = coi_order_id iin) \<and>
    (\<exists>r\<in>set (rows (productsTable db)). p_id r = coi_product_id iin) \<longrightarrow>
    createOrderItem js now iin db =
     (Inr \<lparr>oi_id = next_id (orderItemsTable db), oi_order_id = coi_order_id iin,
          oi_product_id = coi_product_id iin, oi_quantity = coi_quantity iin,
          oi_unit_price = parseFloat js (toString js (coi_unit_price iin)),
          oi_subtotal = parseFloat js (toString js (coi_subtotal iin)),
          oi_created_at = now\<rparr>,
      db\<lparr>orderItemsTable := \<lparr>rows = rows (orderItemsTable db) @
         [\<lparr>oi_id = next_id (orderItemsTable db), oi_order_id = coi_order_id iin,
          oi_product_id = coi_product_id iin, oi_quantity = coi_quantity iin,
          oi_unit_price = toString js (coi_unit_price iin),
          oi_subtotal = toString js (coi_subtotal iin),
          oi_created_at = now\<rparr>],
        next_id = next_id (orderItemsTable db) + 1\<rparr>\<rparr>)) \<and>
   (\<forall>u. fst (createUser now uin db) = Inr u \<longrightarrow> u_created_at u \<le> u_updated_at u) \<and>
   (\<forall>c. fst (createCategory now cin db) = Inr c \<longrightarrow> c_created_at c \<le> c_updated_at c) \<and>
   (\<forall>p. fst (createProduct js now pin db) = Inr p \<longrightarrow> p_created_at p \<le> p_updated_at p) \<and>
   (\<forall>ord. fst (createOrder js now oin db) = Inr ord \<longrightarrow>
      o_created_at ord \<le> o_updated_at ord)"
proof (intro conjI impI allI)
  show "createUser now uin db =
     (Inr \<lparr>u_id = next_id (usersTable db), u_name = cu_name uin, u_email = cu_email uin,
          u_role = (case cu_role uin of None \<Rightarrow> Role_user | Some v \<Rightarrow> v),
          u_is_active = (case cu_is_active uin of None \<Rightarrow> True | Some v \<Rightarrow> v),
          u_created_at = now, u_updated_at = now\<rparr>,
      db\<lparr>usersTable := \<lparr>rows = rows (usersTable db) @
         [\<lparr>u_id = next_id (usersTable db), u_name = cu_name uin, u_email = cu_email uin,
          u_role = (case cu_role uin of None \<Rightarrow> Role_user | Some v \<Rightarrow> v),
          u_is_active = (case cu_is_active uin of None \<Rightarrow> True | Some v \<Rightarrow> v),
          u_created_at = now, u_updated_at = now\<rparr>],
        next_id = next_id (usersTable db) + 1\<rparr>\<rparr>)"
    by (simp add: createUser_eq user_values_def or_default_def)
  show "createCategory now cin db =
     (Inr \<lparr>c_id = next_id (categoriesTable db), c_name = cc_name cin,
          c_description =
            (case cc_description cin of None \<Rightarrow> None | Some None \<Rightarrow> None
             | Some (Some s) \<Rightarrow> if s = [] then None else Some s),
          c_is_active = (case cc_is_active cin of None \<Rightarrow> True | Some v \<Rightarrow> v),
          c_created_at = now, c_updated_at = now\<rparr>,
      db\<lparr>categoriesTable := \<lparr>rows = rows (categoriesTable db) @
         [\<lparr>c_id = next_id (categoriesTable db), c_name = cc_name cin,
          c_description =
            (case cc_description cin of None \<Rightarrow> None | Some None \<Rightarrow> None
             | Some (Some s) \<Rightarrow> if s = [] then None else Some s),
          c_is_active = (case cc_is_active cin of None \<Rightarrow> True | Some v \<Rightarrow> v),
          c_created_at = now, c_updated_at = now\<rparr>],
        next_id = next_id (categoriesTable db) + 1\<rparr>\<rparr>)"
    by (simp add: createCategory_eq category_values_def or_default_def string_or_null_def)
  show "createProduct js now pin db =
     (Inr \<lparr>p_id = next_id (productsTable db), p_name = cp_name pin,
          p_description =
            (case cp_description pin of None \<Rightarrow> None | Some None \<Rightarrow> None
             | Some (Some s) \<Rightarrow> if s = [] then None else Some s),
          p_price = parseFloat js (toString js (cp_price pin)),
          p_stock_quantity = (case cp_stock_quantity pin of None \<Rightarrow> 0 | Some v \<Rightarrow> v),
          p_category_id =
            (case cp_category_id pin of None \<Rightarrow> None | Some None \<Rightarrow> None
             | Some (Some n) \<Rightarrow> if n = 0 then None else Some n),
          p_is_active = (case cp_is_active pin of None \<Rightarrow> True | Some v \<Rightarrow> v),
          p_created_at = now, p_updated_at = now\<rparr>,
      db\<lparr>productsTable := \<lparr>rows = rows (productsTable db) @
         [\<lparr>p_id = next_id (productsTable db), p_name = cp_name pin,
          p_description =
            (case cp_description pin of None \<Rightarrow> None | Some None \<Rightarrow> None
             | Some (Some s) \<Rightarrow> if s = [] then None else Some s),
          p_price = toString js (cp_price pin),
          p_stock_quantity = (case cp_stock_quantity pin of None \<Rightarrow> 0 | Some v \<Rightarrow> v),
          p_category_id =
            (case cp_category_id pin of None \<Rightarrow> None | Some None \<Rightarrow> None
             | Some (Some n) \<Rightarrow> if n = 0 then None else Some n),
          p_is_active = (case cp_is_active pin of None \<Rightarrow> True | Some v \<Rightarrow> v),
          p_created_at = now, p_updated_at = now\<rparr>],
        next_id = next_id (productsTable db) + 1\<rparr>\<rparr>)"
    by (simp add: createProduct_eq product_values_def product_of_row_def or_default_def
        string_or_null_def int_or_null_def)
next
  assume "(\<exists>r\<in>set (rows (usersTable db)). u_id r = co_user_id oin)"
  then show "createOrder js now oin db =
     (Inr \<lparr>o_id = next_id (ordersTable db), o_user_id = co_user_id oin,
          o_status = (case co_status oin of None \<Rightarrow> Status_pending | Some v \<Rightarrow> v),
          o_total_amount = parseFloat js (toString js (co_total_amount oin)),
          o_notes =
            (case co_notes oin of None \<Rightarrow> None | Some None \<Rightarrow> None
             | Some (Some s) \<Rightarrow> if s = [] then None else Some s),
          o_created_at = now, o_updated_at = now\<rparr>,
      db\<lparr>ordersTable := \<lparr>rows = rows (ordersTable db) @
         [\<lparr>o_id = next_id (ordersTable db), o_user_id = co_user_id oin,
          o_status = (case co_status oin of None \<Rightarrow> Status_pending | Some v \<Rightarrow> v),
          o_total_amount = toString js (co_total_amount oin),
          o_notes =
            (case co_notes oin of None \<Rightarrow> None | Some None \<Rightarrow> None
             | Some (Some s) \<Rightarrow> if s = [] then None else Some s),
          o_created_at = now, o_updated_at = now\<rparr>],
        next_id = next_id (ordersTable db) + 1\<rparr>\<rparr>)"
    by (simp add: createOrder_eq order_values_def order_of_row_def or_default_def
        string_or_null_def)
next
  assume "(\<exists>r\<in>set (rows (ordersTable db)). o_id r = coi_order_id iin) \<and>
    (\<exists>r\<in>set (rows (productsTable db)). p_id r = coi_product_id iin)"
  then show "createOrderItem js now iin db =
     (Inr \<lparr>oi_id = next_id (orderItemsTable db), oi_order_id = coi_order_id iin,
          oi_product_id = coi_product_id iin, oi_quantity = coi_quantity iin,
          oi_unit_price = parseFloat js (toString js (coi_unit_price iin)),
          oi_subtotal = parseFloat js (toString js (coi_subtotal iin)),
          oi_created_at = now\<rparr>,
      db\<lparr>orderItemsTable := \<lparr>rows = rows (orderItemsTable db) @
         [\<lparr>oi_id = next_id (orderItemsTable db), oi_order_id = coi_order_id iin,
          oi_product_id = coi_product_id iin, oi_quantity = coi_quantity iin,
          oi_unit_price = toString js (coi_unit_price iin),
          oi_subtotal = toString js (coi_subtotal iin),
          oi_created_at = now\<rparr>],
        next_id = next_id (orderItemsTable db) + 1\<rparr>\<rparr>)"
    by (simp add: createOrderItem_eq order_item_values_def order_item_of_row_def)
next
  fix u assume "fst (createUser now uin db) = Inr u"
  then show "u_created_at u \<le> u_updated_at u"
    by (auto simp: createUser_eq user_values_def)
next
  fix c assume "fst (createCategory now cin db) = Inr c"
  then show "c_created_at c \<le> c_updated_at c"
    by (auto simp: createCategory_eq category_values_def)
next
  fix p assume "fst (createProduct js now pin db) = Inr p"
  then show "p_created_at p \<le> p_updated_at p"
    by (auto simp: createProduct_eq product_values_def product_of_row_def)
next
  fix ord assume "fst (createOrder js now oin db) = Inr ord"
  then show "o_created_at ord \<le> o_updated_at ord"
    by (rule createOrder_stamps)
qed

theorem create_applies_defaults_witness:
  "fst (createUser 2000 user_input_minimal demo_db) =
     Inr \<lparr>u_id = 2, u_name = ''Jane Doe'', u_email = ''jane@example.com'',
          u_role = Role_user, u_is_active = True,
          u_created_at = 2000, u_updated_at = 2000\<rparr> \<and>
   fst (createCategory 2000 category_input_minimal demo_db) =
     Inr \<lparr>c_id = 2, c_name = ''Books'', c_description = None, c_is_active = True,
          c_created_at = 2000, c_updated_at = 2000\<rparr> \<and>
   createProduct text_codec 2000 product_input_test demo_db =
     (Inr \<lparr>p_id = 2, p_name = ''Test Product'',
          p_description = Some ''A product for testing'', p_price = Decimal ''19.99'',
          p_stock_quantity = 100, p_category_id = None, p_is_active = True,
          p_created_at = 2000, p_updated_at = 2000\<rparr>,
      demo_db\<lparr>productsTable := \<lparr>rows = [demo_product,
          \<lparr>p_id = 2, p_name = ''Test Product'',
           p_description = Some ''A product for testing'', p_price = ''19.99'',
           p_stock_quantity = 100, p_category_id = None, p_is_active = True,
           p_created_at = 2000, p_updated_at = 2000\<rparr>], next_id = 3\<rparr>\<rparr>) \<and>
   (\<exists>r\<in>set (rows (usersTable demo_db)). u_id r = co_user_id order_input_minimal) \<and>
   fst (createOrder text_codec 2000 order_input_minimal demo_db) =
     Inr \<lparr>o_id = 2, o_user_id = 1, o_status = Status_pending,
          o_total_amount = Decimal ''50'', o_notes = None,
          o_created_at = 2000, o_updated_at = 2000\<rparr> \<and>
   (\<exists>r\<in>set (rows (ordersTable demo_db)). o_id r = coi_order_id item_input_ok) \<and>
   (\<exists>r\<in>set (rows (productsTable demo_db)). p_id r = coi_product_id item_input_ok) \<and>
   fst (createOrderItem text_codec 2000 item_input_ok demo_db) =
     Inr \<lparr>oi_id = 2, oi_order_id = 1, oi_product_id = 1, oi_quantity = 2,
          oi_unit_price = Decimal ''29.99'', oi_subtotal = Decimal ''59.98'',
          oi_created_at = 2000\<rparr> \<and>
   (\<exists>ord. fst (createOrder text_codec 2000 order_input_minimal demo_db) = Inr ord \<and>
      o_created_at ord \<le> o_updated_at ord)"
  using create_applies_defaults [where db = demo_db and js = text_codec and now = 2000
      and uin = user_input_minimal and cin = category_input_minimal
      and pin = product_input_test and oin = order_input_minimal
      and iin = item_input_ok]
  by (simp add: demo_rows demo_ids demo_next_ids user_input_minimal_def
      category_input_minimal_def product_input_test_def order_input_minimal_def
      item_input_ok_def text_codec_def)

subsection \<open>Claim C10: the empty string on create and on update\<close>

lemma string_or_null_empty: "string_or_null (Some (Some [])) = None"
  by (simp add: string_or_null_def)

text \<open>
  C10. \<open>createCategory\<close> and \<open>createProduct\<close> with the description \<open>""\<close>, and
  \<open>createOrder\<close> (its user existing) with the notes \<open>""\<close>, store and return
  \<open>null\<close> for that field. \<open>updateCategory\<close>, \<open>updateProduct\<close> and \<open>updateOrder\<close>
  on an existing row with the same value store and return the empty string.
\<close>

theorem empty_text_create_vs_update:
  "(cc_description ccin = Some (Some []) \<longrightarrow>
      (\<exists>c\<in>set (rows (categoriesTable (snd (createCategory now ccin db)))).
          fst (createCategory now ccin db) = Inr c \<and> c_description c = None)) \<and>
   (cp_description cpin = Some (Some []) \<longrightarrow>
      (\<exists>r\<in>set (rows (productsTable (snd (createProduct js now cpin db)))).
          fst (createProduct js now cpin db) = Inr (product_of_row js r) \<and>
          p_description r = None \<and> p_description (product_of_row js r) = None)) \<and>
   (co_notes coin = Some (Some []) \<and>
    (\<exists>r\<in>set (rows (usersTable db)). u_id r = co_user_id coin) \<longrightarrow>
      (\<exists>r\<in>set (rows (ordersTable (snd (createOrder js now coin db)))).
          fst (createOrder js now coin db) = Inr (order_of_row js r) \<and>
          o_notes r = None \<and> o_notes (order_of_row js r) = None)) \<and>
   (uc_description ucin = Some (Some []) \<and>
    (\<exists>r\<in>set (rows (categoriesTable db)). c_id r = uc_id ucin) \<longrightarrow>
      (\<exists>c\<in>set (rows (categoriesTable (snd (updateCategory now ucin db)))).
          fst (updateCategory now ucin db) = Inr c \<and> c_description c = Some [])) \<and>
   (up_description upin = Some (Some []) \<and>
    (\<exists>r\<in>set (rows (productsTable db)). p_id r = up_id upin) \<longrightarrow>
      (\<exists>r\<in>set (rows (productsTable (snd (updateProduct js now upin db)))).
          fst (updateProduct js now upin db) = Inr (product_of_row js r) \<and>
          p_description r = Some [] \<and> p_description (product_of_row js r) = Some [])) \<and>
   (uo_notes uoin = Some (Some []) \<and>
    (\<exists>r\<in>set (rows (ordersTable db)). o_id r = uo_id uoin) \<and>
    (\<forall>uid. uo_user_id uoin = Some uid \<longrightarrow>
       (\<exists>r\<in>set (rows (usersTable db)). u_id r = uid)) \<longrightarrow>
      (\<exists>r\<in>set (rows (ordersTable (snd (updateOrder js now uoin db)))).
          fst (updateOrder js now uoin db) = Inr (order_of_row js r) \<and>
          o_notes r = Some [] \<and> o_notes (order_of_row js r) = Some []))"
proof (intro conjI impI)
  assume "cc_description ccin = Some (Some [])"
  then show "\<exists>c\<in>set (rows (categoriesTable (snd (createCategory now ccin db)))).
          fst (createCategory now ccin db) = Inr c \<and> c_description c = None"
    by (simp add: createCategory_eq category_values_def string_or_null_empty)
next
  assume "cp_description cpin = Some (Some [])"
  then show "\<exists>r\<in>set (rows (productsTable (snd (createProduct js now cpin db)))).
          fst (createProduct js now cpin db) = Inr (product_of_row js r) \<and>
          p_description r = None \<and> p_description (product_of_row js r) = None"
    by (simp add: createProduct_eq product_values_def product_of_row_def
        string_or_null_empty)
next
  assume "co_notes coin = Some (Some []) \<and>
    (\<exists>r\<in>set (rows (usersTable db)). u_id r = co_user_id coin)"
  then show "\<exists>r\<in>set (rows (ordersTable (snd (createOrder js now coin db)))).
          fst (createOrder js now coin db) = Inr (order_of_row js r) \<and>
          o_notes r = None \<and> o_notes (order_of_row js r) = None"
    by (simp add: createOrder_eq order_values_def order_of_row_def string_or_null_empty)
next
  assume a: "uc_description ucin = Some (Some []) \<and>
    (\<exists>r\<in>set (rows (categoriesTable db)). c_id r = uc_id ucin)"
  with updateCategory_cases [of db ucin now]
  obtain r where r: "r \<in> set (rows (categoriesTable db))" "c_id r = uc_id ucin"
    "updateCategory now ucin db =
        (Inr (category_updateData now ucin r),
         db\<lparr>categoriesTable := (categoriesTable db)\<lparr>rows :=
              map (\<lambda>x. if c_id x = uc_id ucin then category_updateData now ucin x else x)
                (rows (categoriesTable db))\<rparr>\<rparr>)" by auto
  have "c_description (category_updateData now ucin r) = Some []"
    using a by (simp add: category_updateData_def or_default_def)
  moreover have "category_updateData now ucin r \<in>
     set (rows (categoriesTable (snd (updateCategory now ucin db))))"
    using r by (auto simp: image_iff)
  ultimately show "\<exists>c\<in>set (rows (categoriesTable (snd (updateCategory now ucin db)))).
          fst (updateCategory now ucin db) = Inr c \<and> c_description c = Some []"
    using r(3) by auto
next
  assume a: "up_description upin = Some (Some []) \<and>
    (\<exists>r\<in>set (rows (productsTable db)). p_id r = up_id upin)"
  with updateProduct_cases [of db upin js now]
  obtain r where r: "r \<in> set (rows (productsTable db))" "p_id r = up_id upin"
    "updateProduct js now upin db =
        (Inr (product_of_row js (product_updateValues js now upin r)),
         db\<lparr>productsTable := (productsTable db)\<lparr>rows :=
              map (\<lambda>x. if p_id x = up_id upin then product_updateValues js now upin x else x)
                (rows (productsTable db))\<rparr>\<rparr>)" by auto
  have "p_description (product_updateValues js now upin r) = Some []"
    using a by (simp add: product_updateValues_def or_default_def)
  moreover have "product_updateValues js now upin r \<in>
     set (rows (productsTable (snd (updateProduct js now upin db))))"
    using r by (auto simp: image_iff)
  ultimately show "\<exists>r\<in>set (rows (productsTable (snd (updateProduct js now upin db)))).
          fst (updateProduct js now upin db) = Inr (product_of_row js r) \<and>
          p_description r = Some [] \<and> p_description (product_of_row js r) = Some []"
    using r(3) by (auto simp: product_of_row_def)
next
  assume a: "uo_notes uoin = Some (Some []) \<and>
    (\<exists>r\<in>set (rows (ordersTable db)). o_id r = uo_id uoin) \<and>
    (\<forall>uid. uo_user_id uoin = Some uid \<longrightarrow>
       (\<exists>r\<in>set (rows (usersTable db)). u_id r = uid))"
  then have ok: "\<forall>uid. uo_user_id uoin = Some uid \<longrightarrow>
       (\<exists>r\<in>set (rows (usersTable db)). u_id r = uid)" by simp
  from updateOrder_cases [OF ok, of js now] a
  obtain r where r: "r \<in> set (rows (ordersTable db))" "o_id r = uo_id uoin"
    "updateOrder js now uoin db =
        (Inr (order_of_row js (order_updateData js now uoin r)),
         db\<lparr>ordersTable := (ordersTable db)\<lparr>rows :=
              map (\<lambda>x. if o_id x = uo_id uoin then order_updateData js now uoin x else x)
                (rows (ordersTable db))\<rparr>\<rparr>)" by auto
  have "o_notes (order_updateData js now uoin r) = Some []"
    using a by (simp add: order_updateData_def or_default_def)
  moreover have "order_updateData js now uoin r \<in>
     set (rows (ordersTable (snd (updateOrder js now uoin db))))"
    using r by (auto simp: image_iff)
  ultimately show "\<exists>r\<in>set (rows (ordersTable (snd (updateOrder js now uoin db)))).
          fst (updateOrder js now uoin db) = Inr (order_of_row js r) \<and>
          o_notes r = Some [] \<and> o_notes (order_of_row js r) = Some []"
    using r(3) by (auto simp: order_of_row_def)
qed

theorem empty_text_create_vs_update_witness:
  "(\<exists>c. fst (createCategory 2000 category_input_empty demo_db) = Inr c \<and>
        c_description c = None) \<and>
   (\<exists>r. fst (createProduct text_codec 2000 product_input_empty demo_db) =
          Inr (product_of_row text_codec r) \<and> p_description r = None) \<and>
   (\<exists>r. fst (createOrder text_codec 2000 order_input_empty demo_db) =
          Inr (order_of_row text_codec r) \<and> o_notes r = None) \<and>
   (\<exists>c. fst (updateCategory 2000 category_update_empty demo_db) = Inr c \<and>
        c_description c = Some []) \<and>
   (\<exists>r. fst (updateProduct text_codec 2000 product_update_empty demo_db) =
          Inr (product_of_row text_codec r) \<and> p_description r = Some []) \<and>
   (\<exists>r. fst (updateOrder text_codec 2000 order_update_empty demo_db) =
          Inr (order_of_row text_codec r) \<and> o_notes r = Some [])"
  using empty_text_create_vs_update [where db = demo_db and js = text_codec
      and now = 2000 and ccin = category_input_empty and cpin = product_input_empty
      and coin = order_input_empty and ucin = category_update_empty
      and upin = product_update_empty and uoin = order_update_empty]
  by (auto simp add: demo_rows demo_ids category_input_empty_def product_input_empty_def
      order_input_empty_def category_update_empty_def product_update_empty_def
      order_update_empty_def)

subsection \<open>What an update does to the row it finds\<close>

lemma map_key_unique:
  assumes "distinct (map key xs)" "old \<in> set xs"
  shows "map (\<lambda>x. if key x = key old then f x else x) xs =
         map (\<lambda>x. if x = old then f old else x) xs"
proof (rule map_cong [OF refl])
  fix x assume "x \<in> set xs"
  with assms have "key x = key old \<longleftrightarrow> x = old"
    using key_unique [of key xs x old] by auto
  then show "(if key x = key old then f x else x) = (if x = old then f old else x)"
    by auto
qed

lemma updateUser_frame:
  assumes d: "distinct (map u_id (rows (usersTable db)))"
    and old: "old \<in> set (rows (usersTable db))" and i: "u_id old = uu_id input"
  shows "\<exists>new. updateUser now input db =
           (Inr (new), db\<lparr>usersTable := (usersTable db)\<lparr>rows :=
              map (\<lambda>r. if r = old then new else r) (rows (usersTable db))\<rparr>\<rparr>) \<and>
         user_patched input old new \<and> u_updated_at new = now"
proof -
  from old i have ex: "\<exists>r\<in>set (rows (usersTable db)). u_id r = uu_id input" by blast
  with updateUser_cases [of db input now]
  have "\<exists>r\<in>set (rows (usersTable db)). u_id r = uu_id input \<and>
      updateUser now input db =
        (Inr ((user_updateValues now input r)),
         db\<lparr>usersTable := (usersTable db)\<lparr>rows :=
              map (\<lambda>x. if u_id x = uu_id input then user_updateValues now input x else x)
                (rows (usersTable db))\<rparr>\<rparr>)" by simp
  then obtain r where r: "r \<in> set (rows (usersTable db))" "u_id r = uu_id input"
    "updateUser now input db =
        (Inr ((user_updateValues now input r)),
         db\<lparr>usersTable := (usersTable db)\<lparr>rows :=
              map (\<lambda>x. if u_id x = uu_id input then user_updateValues now input x else x)
                (rows (usersTable db))\<rparr>\<rparr>)" by blast
  from key_unique [OF d r(1) old] r(2) i have ro: "r = old" by simp
  have m: "map (\<lambda>x. if u_id x = uu_id input then user_updateValues now input x else x) (rows (usersTable db)) =
      map (\<lambda>x. if x = old then user_updateValues now input old else x) (rows (usersTable db))"
    using map_key_unique [OF d old, of "user_updateValues now input"] unfolding i .
  have res: "updateUser now input db =
      (Inr ((user_updateValues now input old)), db\<lparr>usersTable := (usersTable db)\<lparr>rows :=
         map (\<lambda>x. if x = old then user_updateValues now input old else x) (rows (usersTable db))\<rparr>\<rparr>)"
    using r(3) unfolding ro m .
  have p: "user_patched input old (user_updateValues now input old)"
    by (simp add: user_patched_def user_updateValues_def or_default_def)
  have s: "u_updated_at (user_updateValues now input old) = now"
    by (simp add: user_updateValues_def)
  from res p s show ?thesis by blast
qed

lemma updateCategory_frame:
  assumes d: "distinct (map c_id (rows (categoriesTable db)))"
    and old: "old \<in> set (rows (categoriesTable db))" and i: "c_id old = uc_id input"
  shows "\<exists>new. updateCategory now input db =
           (Inr (new), db\<lparr>categoriesTable := (categoriesTable db)\<lparr>rows :=
              map (\<lambda>r. if r = old then new else r) (rows (categoriesTable db))\<rparr>\<rparr>) \<and>
         category_patched input old new \<and> c_updated_at new = now"
proof -
  from old i have ex: "\<exists>r\<in>set (rows (categoriesTable db)). c_id r = uc_id input" by blast
  with updateCategory_cases [of db input now]
  have "\<exists>r\<in>set (rows (categoriesTable db)). c_id r = uc_id input \<and>
      updateCategory now input db =
        (Inr ((category_updateData now input r)),
         db\<lparr>categoriesTable := (categoriesTable db)\<lparr>rows :=
              map (\<lambda>x. if c_id x = uc_id input then category_updateData now input x else x)
                (rows (categoriesTable db))\<rparr>\<rparr>)" by simp
  then obtain r where r: "r \<in> set (rows (categoriesTable db))" "c_id r = uc_id input"
    "updateCategory now input db =
        (Inr ((category_updateData now input r)),
         db\<lparr>categoriesTable := (categoriesTable db)\<lparr>rows :=
              map (\<lambda>x. if c_id x = uc_id input then category_updateData now input x else x)
                (rows (categoriesTable db))\<rparr>\<rparr>)" by blast
  from key_unique [OF d r(1) old] r(2) i have ro: "r = old" by simp
  have m: "map (\<lambda>x. if c_id x = uc_id input then category_updateData now input x else x) (rows (categoriesTable db)) =
      map (\<lambda>x. if x = old then category_updateData now input old else x) (rows (categoriesTable db))"
    using map_key_unique [OF d old, of "category_updateData now input"] unfolding i .
  have res: "updateCategory now input db =
      (Inr ((category_updateData now input old)), db\<lparr>categoriesTable := (categoriesTable db)\<lparr>rows :=
         map (\<lambda>x. if x = old then category_updateData now input old else x) (rows (categoriesTable db))\<rparr>\<rparr>)"
    using r(3) unfolding ro m .
  have p: "category_patched input old (category_updateData now input old)"
    by (simp add: category_patched_def category_updateData_def or_default_def)
  have s: "c_updated_at (category_updateData now input old) = now"
    by (simp add: category_updateData_def)
  from res p s show ?thesis by blast
qed

lemma updateProduct_frame:
  assumes d: "distinct (map p_id (rows (productsTable db)))"
    and old: "old \<in> set (rows (productsTable db))" and i: "p_id old = up_id input"
  shows "\<exists>new. updateProduct js now input db =
           (Inr (product_of_row js new), db\<lparr>productsTable := (productsTable db)\<lparr>rows :=
              map (\<lambda>r. if r = old then new else r) (rows (productsTable db))\<rparr>\<rparr>) \<and>
         product_patched js input old new \<and> p_updated_at new = now"
proof -
  from old i have ex: "\<exists>r\<in>set (rows (productsTable db)). p_id r = up_id input" by blast
  with updateProduct_cases [of db input js now]
  have "\<exists>r\<in>set (rows (productsTable db)). p_id r = up_id input \<and>
      updateProduct js now input db =
        (Inr (product_of_row js (product_updateValues js now input r)),
         db\<lparr>productsTable := (productsTable db)\<lparr>rows :=
              map (\<lambda>x. if p_id x = up_id input then product_updateValues js now input x else x)
                (rows (productsTable db))\<rparr>\<rparr>)" by simp
  then obtain r where r: "r \<in> set (rows (productsTable db))" "p_id r = up_id input"
    "updateProduct js now input db =
        (Inr (product_of_row js (product_updateValues js now input r)),
         db\<lparr>productsTable := (productsTable db)\<lparr>rows :=
              map (\<lambda>x. if p_id x = up_id input then product_updateValues js now input x else x)
                (rows (productsTable db))\<rparr>\<rparr>)" by blast
  from key_unique [OF d r(1) old] r(2) i have ro: "r = old" by simp
  have m: "map (\<lambda>x. if p_id x = up_id input then product_updateValues js now input x else x) (rows (productsTable db)) =
      map (\<lambda>x. if x = old then product_updateValues js now input old else x) (rows (productsTable db))"
    using map_key_unique [OF d old, of "product_updateValues js now input"] unfolding i .
  have res: "updateProduct js now input db =
      (Inr (product_of_row js (product_updateValues js now input old)), db\<lparr>productsTable := (productsTable db)\<lparr>rows :=
         map (\<lambda>x. if x = old then product_updateValues js now input old else x) (rows (productsTable db))\<rparr>\<rparr>)"
    using r(3) unfolding ro m .
  have p: "product_patched js input old (product_updateValues js now input old)"
    by (simp add: product_patched_def product_updateValues_def or_default_def)
  have s: "p_updated_at (product_updateValues js now input old) = now"
    by (simp add: product_updateValues_def)
  from res p s show ?thesis by blast
qed

lemma updateOrder_frame:
  assumes d: "distinct (map o_id (rows (ordersTable db)))"
    and old: "old \<in> set (rows (ordersTable db))" and i: "o_id old = uo_id input"
    and ok1: "\<forall>uid. uo_user_id input = Some uid \<longrightarrow>
             (\<exists>r\<in>set (rows (usersTable db)). u_id r = uid)"
  shows "\<exists>new. updateOrder js now input db =
           (Inr (order_of_row js new), db\<lparr>ordersTable := (ordersTable db)\<lparr>rows :=
              map (\<lambda>r. if r = old then new else r) (rows (ordersTable db))\<rparr>\<rparr>) \<and>
         order_patched js input old new \<and> o_updated_at new = now"
proof -
  from old i have ex: "\<exists>r\<in>set (rows (ordersTable db)). o_id r = uo_id input" by blast
  with updateOrder_cases [OF ok1, of js now]
  have "\<exists>r\<in>set (rows (ordersTable db)). o_id r = uo_id input \<and>
      updateOrder js now input db =
        (Inr (order_of_row js (order_updateData js now input r)),
         db\<lparr>ordersTable := (ordersTable db)\<lparr>rows :=
              map (\<lambda>x. if o_id x = uo_id input then order_updateData js now input x else x)
                (rows (ordersTable db))\<rparr>\<rparr>)" by simp
  then obtain r where r: "r \<in> set (rows (ordersTable db))" "o_id r = uo_id input"
    "updateOrder js now input db =
        (Inr (order_of_row js (order_updateData js now input r)),
         db\<lparr>ordersTable := (ordersTable db)\<lparr>rows :=
              map (\<lambda>x. if o_id x = uo_id input then order_updateData js now input x else x)
                (rows (ordersTable db))\<rparr>\<rparr>)" by blast
  from key_unique [OF d r(1) old] r(2) i have ro: "r = old" by simp
  have m: "map (\<lambda>x. if o_id x = uo_id input then order_updateData js now input x else x) (rows (ordersTable db)) =
      map (\<lambda>x. if x = old then order_updateData js now input old else x) (rows (ordersTable db))"
    using map_key_unique [OF d old, of "order_updateData js now input"] unfolding i .
  have res: "updateOrder js now input db =
      (Inr (order_of_row js (order_updateData js now input old)), db\<lparr>ordersTable := (ordersTable db)\<lparr>rows :=
         map (\<lambda>x. if x = old then order_updateData js now input old else x) (rows (ordersTable db))\<rparr>\<rparr>)"
    using r(3) unfolding ro m .
  have p: "order_patched js input old (order_updateData js now input old)"
    by (simp add: order_patched_def order_updateData_def or_default_def)
  have s: "o_updated_at (order_updateData js now input old) = now"
    by (simp add: order_updateData_def)
  from res p s show ?thesis by blast
qed

lemma updateOrderItem_frame:
  assumes d: "distinct (map oi_id (rows (orderItemsTable db)))"
    and old: "old \<in> set (rows (orderItemsTable db))" and i: "oi_id old = uoi_id input"
    and ok1: "\<forall>oid. uoi_order_id input = Some oid \<longrightarrow>
             (\<exists>r\<in>set (rows (ordersTable db)). o_id r = oid)"
    and ok2: "\<forall>pid. uoi_product_id input = Some pid \<longrightarrow>
             (\<exists>r\<in>set (rows (productsTable db)). p_id r = pid)"
    and ok3: "\<not> order_item_no_values input"
  shows "\<exists>new. updateOrderItem js input db =
           (Inr (order_item_of_row js new), db\<lparr>orderItemsTable := (orderItemsTable db)\<lparr>rows :=
              map (\<lambda>r. if r = old then new else r) (rows (orderItemsTable db))\<rparr>\<rparr>) \<and>
         order_item_patched js input old new"
proof -
  from old i have ex: "\<exists>r\<in>set (rows (orderItemsTable db)). oi_id r = uoi_id input" by blast
  from updateOrderItem_ok [OF ex ok1 ok2 ok3, of js]
  have "\<exists>r\<in>set (rows (orderItemsTable db)). oi_id r = uoi_id input \<and>
      updateOrderItem js input db =
        (Inr (order_item_of_row js (order_item_updateValues js input r)),
         db\<lparr>orderItemsTable := (orderItemsTable db)\<lparr>rows :=
              map (\<lambda>x. if oi_id x = uoi_id input then order_item_updateValues js input x else x)
                (rows (orderItemsTable db))\<rparr>\<rparr>)" .
  then obtain r where r: "r \<in> set (rows (orderItemsTable db))" "oi_id r = uoi_id input"
    "updateOrderItem js input db =
        (Inr (order_item_of_row js (order_item_updateValues js input r)),
         db\<lparr>orderItemsTable := (orderItemsTable db)\<lparr>rows :=
              map (\<lambda>x. if oi_id x = uoi_id input then order_item_updateValues js input x else x)
                (rows (orderItemsTable db))\<rparr>\<rparr>)" by blast
  from key_unique [OF d r(1) old] r(2) i have ro: "r = old" by simp
  have m: "map (\<lambda>x. if oi_id x = uoi_id input then order_item_updateValues js input x else x) (rows (orderItemsTable db)) =
      map (\<lambda>x. if x = old then order_item_updateValues js input old else x) (rows (orderItemsTable db))"
    using map_key_unique [OF d old, of "order_item_updateValues js input"] unfolding i .
  have res: "updateOrderItem js input db =
      (Inr (order_item_of_row js (order_item_updateValues js input old)), db\<lparr>orderItemsTable := (orderItemsTable db)\<lparr>rows :=
         map (\<lambda>x. if x = old then order_item_updateValues js input old else x) (rows (orderItemsTable db))\<rparr>\<rparr>)"
    using r(3) unfolding ro m .
  have p: "order_item_patched js input old (order_item_updateValues js input old)"
    by (simp add: order_item_patched_def order_item_updateValues_def or_default_def)
  from res p show ?thesis by blast
qed

subsection \<open>Claim C4: partial update\<close>

text \<open>
  C4 fails in its last part, and the code is at fault: an update does not always
  strictly advance \<open>updated_at\<close>. \<open>updateUser\<close> stores the reading of
  \<open>new Date()\<close>, and when that reading is the one already stored (an update in the
  same millisecond as the insert, here 1000) \<open>updated_at\<close> stays as it was. The
  handlers' own tests take the strict advance as the intent
  (\<open>expect(result.updated_at > createdProduct.updated_at).toBe(true)\<close>), and hold
  only while the clock moves between the insert and the update.
\<close>

theorem update_same_clock_counterexample:
  "u_updated_at demo_user = 1000 \<and>
   fst (updateUser 1000 user_update_name demo_db) =
     Inr (demo_user\<lparr>u_name := ''Only Name Updated''\<rparr>) \<and>
   u_updated_at (demo_user\<lparr>u_name := ''Only Name Updated''\<rparr>) = 1000 \<and>
   \<not> u_updated_at demo_user < u_updated_at (demo_user\<lparr>u_name := ''Only Name Updated''\<rparr>)"
  by (simp add: demo_db_def demo_user_def user_update_name_def updateUser_def
      getUserById_def select_by_id_def select_where_def update_where_def first_row_def
      user_updateValues_def or_default_def)

text \<open>
  The rest of a partial update. For every stored row (keys being distinct) and every
  update input for it that passes the handler's reference checks (and, for an order
  item, supplies at least one field), the update succeeds; it replaces that row and no
  other; in the new row every field the input supplies has the supplied value and
  every other field, the identity key and \<open>created_at\<close> have the prior value; the
  record returned is the new row with its currency fields parsed; and
  \<open>updated_at\<close>, for the entities that carry it, is the clock reading of the update.
\<close>

theorem partial_update_frame:
  "(distinct (map u_id (rows (usersTable db))) \<and>
    old_user \<in> set (rows (usersTable db)) \<and>
    u_id old_user = uu_id uin \<longrightarrow>
      (\<exists>new. updateUser now uin db =
        (Inr new, db\<lparr>usersTable := (usersTable db)\<lparr>rows :=
           map (\<lambda>r. if r = old_user then new else r) (rows (usersTable db))\<rparr>\<rparr>) \<and>
        user_patched uin old_user new \<and> u_updated_at new = now)) \<and>
   (distinct (map c_id (rows (categoriesTable db))) \<and>
    old_category \<in> set (rows (categoriesTable db)) \<and>
    c_id old_category = uc_id cin \<longrightarrow>
      (\<exists>new. updateCategory now cin db =
        (Inr new, db\<lparr>categoriesTable := (categoriesTable db)\<lparr>rows :=
           map (\<lambda>r. if r = old_category then new else r) (rows (categoriesTable db))\<rparr>\<rparr>) \<and>
        category_patched cin old_category new \<and> c_updated_at new = now)) \<and>
   (distinct (map p_id (rows (productsTable db))) \<and>
    old_product \<in> set (rows (productsTable db)) \<and>
    p_id old_product = up_id pin \<longrightarrow>
      (\<exists>new. updateProduct js now pin db =
        (Inr \<lparr>p_id = p_id new, p_name = p_name new, p_description = p_description new,
               p_price = parseFloat js (p_price new),
               p_stock_quantity = p_stock_quantity new,
               p_category_id = p_category_id new, p_is_active = p_is_active new,
               p_created_at = p_created_at new, p_updated_at = p_updated_at new\<rparr>,
         db\<lparr>productsTable := (productsTable db)\<lparr>rows :=
           map (\<lambda>r. if r = old_product then new else r) (rows (productsTable db))\<rparr>\<rparr>) \<and>
        product_patched js pin old_product new \<and> p_updated_at new = now)) \<and>
   (distinct (map o_id (rows (ordersTable db))) \<and>
    old_order \<in> set (rows (ordersTable db)) \<and>
    o_id old_order = uo_id oin \<and>
    (\<forall>uid. uo_user_id oin = Some uid \<longrightarrow>
             (\<exists>r\<in>set (rows (usersTable db)). u_id r = uid)) \<longrightarrow>
      (\<exists>new. updateOrder js now oin db =
        (Inr \<lparr>o_id = o_id new, o_user_id = o_user_id new, o_status = o_status new,
               o_total_amount = parseFloat js (o_total_amount new),
               o_notes = o_notes new,
               o_created_at = o_created_at new, o_updated_at = o_updated_at new\<rparr>,
         db\<lparr>ordersTable := (ordersTable db)\<lparr>rows :=
           map (\<lambda>r. if r = old_order then new else r) (rows (ordersTable db))\<rparr>\<rparr>) \<and>
        order_patched js oin old_order new \<and> o_updated_at new = now)) \<and>
   (distinct (map oi_id (rows (orderItemsTable db))) \<and>
    old_item \<in> set (rows (orderItemsTable db)) \<and>
    oi_id old_item = uoi_id iin \<and>
    (\<forall>oid. uoi_order_id iin = Some oid \<longrightarrow>
             (\<exists>r\<in>set (rows (ordersTable db)). o_id r = oid)) \<and>
    (\<forall>pid. uoi_product_id iin = Some pid \<longrightarrow>
             (\<exists>r\<in>set (rows (productsTable db)). p_id r = pid)) \<and>
    \<not> order_item_no_values iin \<longrightarrow>
      (\<exists>new. updateOrderItem js iin db =
        (Inr \<lparr>oi_id = oi_id new, oi_order_id = oi_order_id new,
               oi_product_id = oi_product_id new, oi_quantity = oi_quantity new,
               oi_unit_price = parseFloat js (oi_unit_price new),
               oi_subtotal = parseFloat js (oi_subtotal new),
               oi_created_at = oi_created_at new\<rparr>,
         db\<lparr>orderItemsTable := (orderItemsTable db)\<lparr>rows :=
           map (\<lambda>r. if r = old_item then new else r) (rows (orderItemsTable db))\<rparr>\<rparr>) \<and>
        order_item_patched js iin old_item new))"
proof (intro conjI impI)
  assume a: "distinct (map u_id (rows (usersTable db))) \<and>
    old_user \<in> set (rows (usersTable db)) \<and>
    u_id old_user = uu_id uin"
  from a updateUser_frame [where db = db and old = old_user and input = uin and now = now] show "(\<exists>new. updateUser now uin db =
        (Inr new, db\<lparr>usersTable := (usersTable db)\<lparr>rows :=
           map (\<lambda>r. if r = old_user then new else r) (rows (usersTable db))\<rparr>\<rparr>) \<and>
        user_patched uin old_user new \<and> u_updated_at new = now)"
    by auto
next
  assume a: "distinct (map c_id (rows (categoriesTable db))) \<and>
    old_category \<in> set (rows (categoriesTable db)) \<and>
    c_id old_category = uc_id cin"
  from a updateCategory_frame [where db = db and old = old_category and input = cin and now = now] show "(\<exists>new. updateCategory now cin db =
        (Inr new, db\<lparr>categoriesTable := (categoriesTable db)\<lparr>rows :=
           map (\<lambda>r. if r = old_category then new else r) (rows (categoriesTable db))\<rparr>\<rparr>) \<and>
        category_patched cin old_category new \<and> c_updated_at new = now)"
    by auto
next
  assume a: "distinct (map p_id (rows (productsTable db))) \<and>
    old_product \<in> set (rows (productsTable db)) \<and>
    p_id old_product = up_id pin"
  from a updateProduct_frame [where db = db and old = old_product and input = pin and js = js and now = now] show "(\<exists>new. updateProduct js now pin db =
        (Inr \<lparr>p_id = p_id new, p_name = p_name new, p_description = p_description new,
               p_price = parseFloat js (p_price new),
               p_stock_quantity = p_stock_quantity new,
               p_category_id = p_category_id new, p_is_active = p_is_active new,
               p_created_at = p_created_at new, p_updated_at = p_updated_at new\<rparr>,
         db\<lparr>productsTable := (productsTable db)\<lparr>rows :=
           map (\<lambda>r. if r = old_product then new else r) (rows (productsTable db))\<rparr>\<rparr>) \<and>
        product_patched js pin old_product new \<and> p_updated_at new = now)"
    unfolding product_of_row_def by auto
next
  assume a: "distinct (map o_id (rows (ordersTable db))) \<and>
    old_order \<in> set (rows (ordersTable db)) \<and>
    o_id old_order = uo_id oin \<and>
    (\<forall>uid. uo_user_id oin = Some uid \<longrightarrow>
             (\<exists>r\<in>set (rows (usersTable db)). u_id r = uid))"
  from a updateOrder_frame [where db = db and old = old_order and input = oin and js = js and now = now] show "(\<exists>new. updateOrder js now oin db =
        (Inr \<lparr>o_id = o_id new, o_user_id = o_user_id new, o_status = o_status new,
               o_total_amount = parseFloat js (o_total_amount new),
               o_notes = o_notes new,
               o_created_at = o_created_at new, o_updated_at = o_updated_at new\<rparr>,
         db\<lparr>ordersTable := (ordersTable db)\<lparr>rows :=
           map (\<lambda>r. if r = old_order then new else r) (rows (ordersTable db))\<rparr>\<rparr>) \<and>
        order_patched js oin old_order new \<and> o_updated_at new = now)"
    unfolding order_of_row_def by auto
next
  assume a: "distinct (map oi_id (rows (orderItemsTable db))) \<and>
    old_item \<in> set (rows (orderItemsTable db)) \<and>
    oi_id old_item = uoi_id iin \<and>
    (\<forall>oid. uoi_order_id iin = Some oid \<longrightarrow>
             (\<exists>r\<in>set (rows (ordersTable db)). o_id r = oid)) \<and>
    (\<forall>pid. uoi_product_id iin = Some pid \<longrightarrow>
             (\<exists>r\<in>set (rows (productsTable db)). p_id r = pid)) \<and>
    \<not> order_item_no_values iin"
  from a updateOrderItem_frame [where db = db and old = old_item and input = iin and js = js] show "(\<exists>new. updateOrderItem js iin db =
        (Inr \<lparr>oi_id = oi_id new, oi_order_id = oi_order_id new,
               oi_product_id = oi_product_id new, oi_quantity = oi_quantity new,
               oi_unit_price = parseFloat js (oi_unit_price new),
               oi_subtotal = parseFloat js (oi_subtotal new),
               oi_created_at = oi_created_at new\<rparr>,
         db\<lparr>orderItemsTable := (orderItemsTable db)\<lparr>rows :=
           map (\<lambda>r. if r = old_item then new else r) (rows (orderItemsTable db))\<rparr>\<rparr>) \<and>
        order_item_patched js iin old_item new)"
    unfolding order_item_of_row_def by auto
qed

theorem partial_update_frame_witness:
  "(\<exists>new. fst (updateUser 2000 user_update_name demo_db) = Inr new \<and>
      u_name new = ''Only Name Updated'' \<and> u_email new = ''test@example.com'' \<and>
      u_id new = 1 \<and> u_created_at new = 1000 \<and> u_updated_at new = 2000) \<and>
   (\<exists>new. fst (updateCategory 2000 category_update_empty demo_db) = Inr new \<and>
      c_name new = ''Test Category'' \<and> c_description new = Some [] \<and>
      c_created_at new = 1000 \<and> c_updated_at new = 2000) \<and>
   (\<exists>new. fst (updateProduct text_codec 2000 product_update_empty demo_db) = Inr new \<and>
      p_price new = Decimal ''29.99'' \<and> p_stock_quantity new = 100 \<and>
      p_updated_at new = 2000) \<and>
   (\<exists>new. fst (updateOrder text_codec 2000 order_update_empty demo_db) = Inr new \<and>
      o_total_amount new = Decimal ''59.98'' \<and> o_status new = Status_pending \<and>
      o_updated_at new = 2000) \<and>
   (\<exists>new. fst (updateOrderItem text_codec item_update_quantity demo_db) = Inr new \<and>
      oi_quantity new = 5 \<and> oi_unit_price new = Decimal ''29.99'' \<and>
      oi_subtotal new = Decimal ''149.95'' \<and> oi_created_at new = 1000)"
  using partial_update_frame [where db = demo_db and js = text_codec and now = 2000
      and uin = user_update_name and old_user = demo_user
      and cin = category_update_empty and old_category = demo_category
      and pin = product_update_empty and old_product = demo_product
      and oin = order_update_empty and old_order = demo_order
      and iin = item_update_quantity and old_item = demo_item]
  by (auto simp add: demo_rows user_patched_def category_patched_def product_patched_def
      order_patched_def order_item_patched_def order_item_no_values_def
      demo_user_def demo_category_def
      demo_product_def demo_order_def demo_item_def user_update_name_def
      category_update_empty_def product_update_empty_def order_update_empty_def
      item_update_quantity_def text_codec_def)

subsection \<open>The storage a call leaves\<close>

lemma table_ok_empty: "table_ok key empty_table"
  by (simp add: table_ok_def empty_table_def)

lemma table_ok_insert:
  assumes "table_ok key t" and "\<And>i. key (mk i) = i"
  shows "table_ok key (snd (insert_returning mk t))"
  using assms by (fastforce simp: table_ok_def insert_returning_eq)

lemma table_ok_update:
  assumes "table_ok key t" and "\<And>r. key (f r) = key r"
  shows "table_ok key (snd (update_where P f t))"
proof -
  have "map key (map (\<lambda>r. if P r then f r else r) (rows t)) = map key (rows t)"
    using assms(2) by (simp add: comp_def if_distrib cong: if_cong)
  then show ?thesis
    using assms by (auto simp: table_ok_def update_where_def simp del: map_map)
qed

lemma table_ok_delete:
  assumes "table_ok key t"
  shows "table_ok key (snd (delete_where P t))"
  using assms by (auto simp: table_ok_def delete_where_def distinct_map_filter)

lemma snd_createUser:
  "snd (createUser now input db) =
     db\<lparr>usersTable := snd (insert_returning (user_values now input) (usersTable db))\<rparr>"
  by (simp add: createUser_def split: prod.splits)

lemma snd_updateUser:
  "snd (updateUser now input db) = db \<or>
   snd (updateUser now input db) =
     db\<lparr>usersTable := snd (update_where (\<lambda>r. u_id r = uu_id input)
                             (user_updateValues now input) (usersTable db))\<rparr>"
  by (simp add: updateUser_def split: prod.splits sum.splits option.splits)

lemma snd_deleteUser:
  "snd (deleteUser i db) = db \<or>
   snd (deleteUser i db) =
     db\<lparr>usersTable := snd (delete_where (\<lambda>r. u_id r = i) (usersTable db))\<rparr>"
  by (simp add: deleteUser_def split: prod.splits sum.splits option.splits)

lemma snd_createCategory:
  "snd (createCategory now input db) =
     db\<lparr>categoriesTable :=
          snd (insert_returning (category_values now input) (categoriesTable db))\<rparr>"
  by (simp add: createCategory_def split: prod.splits)

lemma snd_updateCategory:
  "snd (updateCategory now input db) =
     db\<lparr>categoriesTable := snd (update_where (\<lambda>r. c_id r = uc_id input)
                             (category_updateData now input) (categoriesTable db))\<rparr>"
  by (simp add: updateCategory_def split: prod.splits list.splits)

lemma snd_deleteCategory:
  "snd (deleteCategory i db) =
     db\<lparr>categoriesTable := snd (delete_where (\<lambda>r. c_id r = i) (categoriesTable db))\<rparr>"
  by (simp add: deleteCategory_def split: prod.splits)

lemma snd_createProduct:
  "snd (createProduct js now input db) =
     db\<lparr>productsTable :=
          snd (insert_returning (product_values js now input) (productsTable db))\<rparr>"
  by (simp add: createProduct_def split: prod.splits sum.splits)

lemma snd_updateProduct:
  "snd (updateProduct js now input db) =
     db\<lparr>productsTable := snd (update_where (\<lambda>r. p_id r = up_id input)
                             (product_updateValues js now input) (productsTable db))\<rparr>"
  by (simp add: updateProduct_def split: prod.splits list.splits)

lemma snd_deleteProduct:
  "snd (deleteProduct i db) =
     db\<lparr>productsTable := snd (delete_where (\<lambda>r. p_id r = i) (productsTable db))\<rparr>"
  by (simp add: deleteProduct_def split: prod.splits)

lemma snd_createOrder:
  "snd (createOrder js now input db) = db \<or>
   snd (createOrder js now input db) =
     db\<lparr>ordersTable :=
          snd (insert_returning (order_values js now input) (ordersTable db))\<rparr>"
  by (simp add: createOrder_def Let_def split: prod.splits sum.splits)

lemma snd_updateOrder:
  "snd (updateOrder js now input db) = db \<or>
   snd (updateOrder js now input db) =
     db\<lparr>ordersTable := snd (update_where (\<lambda>r. o_id r = uo_id input)
                             (order_updateData js now input) (ordersTable db))\<rparr>"
  by (simp add: updateOrder_def split: prod.splits list.splits option.splits)

lemma snd_deleteOrder:
  "snd (deleteOrder i db) =
     db\<lparr>ordersTable := snd (delete_where (\<lambda>r. o_id r = i) (ordersTable db))\<rparr>"
  by (simp add: deleteOrder_def split: prod.splits)

lemma snd_createOrderItem:
  "snd (createOrderItem js now input db) = db \<or>
   snd (createOrderItem js now input db) =
     db\<lparr>orderItemsTable :=
          snd (insert_returning (order_item_values js now input) (orderItemsTable db))\<rparr>"
  by (simp add: createOrderItem_def Let_def split: prod.splits sum.splits)

lemma snd_updateOrderItem:
  "snd (updateOrderItem js input db) = db \<or>
   snd (updateOrderItem js input db) =
     db\<lparr>orderItemsTable := snd (update_where (\<lambda>r. oi_id r = uoi_id input)
                             (order_item_updateValues js input) (orderItemsTable db))\<rparr>"
  by (simp add: updateOrderItem_def Let_def split: prod.splits sum.splits option.splits)

lemma snd_deleteOrderItem:
  "snd (deleteOrderItem i db) =
     db\<lparr>orderItemsTable := snd (delete_where (\<lambda>r. oi_id r = i) (orderItemsTable db))\<rparr>"
  by (simp add: deleteOrderItem_def split: prod.splits)

lemma snd_get:
  "snd (getUsers db) = db" "snd (getUserById n db) = db"
  "snd (getCategories db) = db" "snd (getCategoryById n db) = db"
  "snd (getProducts js db) = db" "snd (getProductById js n db) = db"
  "snd (getOrders js db) = db" "snd (getOrderById js n db) = db"
  "snd (getOrderItems js db) = db" "snd (getOrderItemById js n db) = db"
  "snd (getOrderItemsByOrderId js n db) = db"
  by (simp_all add: getUsers_def getUserById_def getCategories_def getCategoryById_def
      getProducts_def getProductById_def getOrders_def getOrderById_def
      getOrderItems_def getOrderItemById_def getOrderItemsByOrderId_def
      split: list.splits sum.splits)

subsection \<open>Keys are distinct and below the sequence in every reachable state\<close>

lemma values_id:
  "u_id (user_values now uin i) = i" "c_id (category_values now cin i) = i"
  "p_id (product_values js now pin i) = i" "o_id (order_values js now oin i) = i"
  "oi_id (order_item_values js now iin i) = i"
  by (simp_all add: user_values_def category_values_def product_values_def
      order_values_def order_item_values_def)

lemma update_id:
  "u_id (user_updateValues now uuin u) = u_id u"
  "c_id (category_updateData now ucin c) = c_id c"
  "p_id (product_updateValues js now upin p) = p_id p"
  "o_id (order_updateData js now uoin ord) = o_id ord"
  "oi_id (order_item_updateValues js uiin it) = oi_id it"
  by (simp_all add: user_updateValues_def category_updateData_def
      product_updateValues_def order_updateData_def order_item_updateValues_def)

lemma table_ok_steps:
  "table_ok u_id ut \<Longrightarrow> table_ok u_id (snd (insert_returning (user_values now uin) ut))"
  "table_ok c_id ct \<Longrightarrow> table_ok c_id (snd (insert_returning (category_values now cin) ct))"
  "table_ok p_id pt \<Longrightarrow> table_ok p_id (snd (insert_returning (product_values js now pin) pt))"
  "table_ok o_id ot \<Longrightarrow> table_ok o_id (snd (insert_returning (order_values js now oin) ot))"
  "table_ok oi_id it \<Longrightarrow>
     table_ok oi_id (snd (insert_returning (order_item_values js now iin) it))"
  "table_ok u_id ut \<Longrightarrow>
     table_ok u_id (snd (update_where uP (user_updateValues now uuin) ut))"
  "table_ok c_id ct \<Longrightarrow>
     table_ok c_id (snd (update_where cP (category_updateData now ucin) ct))"
  "table_ok p_id pt \<Longrightarrow>
     table_ok p_id (snd (update_where pP (product_updateValues js now upin) pt))"
  "table_ok o_id ot \<Longrightarrow>
     table_ok o_id (snd (update_where oP (order_updateData js now uoin) ot))"
  "table_ok oi_id it \<Longrightarrow>
     table_ok oi_id (snd (update_where iP (order_item_updateValues js uiin) it))"
  by (simp_all add: table_ok_insert table_ok_update values_id update_id)

lemma db_ok_call:
  assumes "db_ok db"
  shows "db_ok (appRouter js now call db)"
proof (cases call)
  case (Users_update input)
  with assms snd_updateUser [of now input db] show ?thesis
    by (auto simp: db_ok_def table_ok_steps table_ok_delete)
next
  case (Users_delete i)
  with assms snd_deleteUser [of i db] show ?thesis
    by (auto simp: db_ok_def table_ok_steps table_ok_delete)
next
  case (Orders_create input)
  with assms snd_createOrder [of js now input db] show ?thesis
    by (auto simp: db_ok_def table_ok_steps table_ok_delete)
next
  case (Orders_update input)
  with assms snd_updateOrder [of js now input db] show ?thesis
    by (auto simp: db_ok_def table_ok_steps table_ok_delete)
next
  case (OrderItems_create input)
  with assms snd_createOrderItem [of js now input db] show ?thesis
    by (auto simp: db_ok_def table_ok_steps table_ok_delete)
next
  case (OrderItems_update input)
  with assms snd_updateOrderItem [of js input db] show ?thesis
    by (auto simp: db_ok_def table_ok_steps table_ok_delete)
qed (use assms in \<open>simp_all add: db_ok_def table_ok_steps table_ok_delete snd_get snd_createUser
      snd_createCategory snd_updateCategory snd_deleteCategory snd_createProduct
      snd_updateProduct snd_deleteProduct snd_deleteOrder snd_deleteOrderItem\<close>)

lemma db_ok_empty: "db_ok empty_db"
  by (simp add: db_ok_def empty_db_def table_ok_empty)

lemma reachable_db_ok: "reachable js db \<Longrightarrow> db_ok db"
  by (induction rule: reachable.induct) (simp_all add: db_ok_empty db_ok_call)

lemma next_id_mono:
  "next_id (usersTable db) \<le> next_id (usersTable (appRouter js now call db)) \<and>
   next_id (categoriesTable db) \<le> next_id (categoriesTable (appRouter js now call db)) \<and>
   next_id (productsTable db) \<le> next_id (productsTable (appRouter js now call db)) \<and>
   next_id (ordersTable db) \<le> next_id (ordersTable (appRouter js now call db)) \<and>
   next_id (orderItemsTable db) \<le> next_id (orderItemsTable (appRouter js now call db))"
proof (cases call)
  case (Users_update input)
  with snd_updateUser [of now input db] show ?thesis
    by (auto simp: update_where_def)
next
  case (Users_delete i)
  with snd_deleteUser [of i db] show ?thesis
    by (auto simp: delete_where_def)
next
  case (Orders_create input)
  with snd_createOrder [of js now input db] show ?thesis
    by (auto simp: insert_returning_eq)
next
  case (Orders_update input)
  with snd_updateOrder [of js now input db] show ?thesis
    by (auto simp: update_where_def)
next
  case (OrderItems_create input)
  with snd_createOrderItem [of js now input db] show ?thesis
    by (auto simp: insert_returning_eq)
next
  case (OrderItems_update input)
  with snd_updateOrderItem [of js input db] show ?thesis
    by (auto simp: update_where_def)
qed (simp_all add: snd_get snd_createUser
      snd_createCategory snd_updateCategory snd_deleteCategory snd_createProduct
      snd_updateProduct snd_deleteProduct snd_deleteOrder snd_deleteOrderItem
      insert_returning_eq update_where_def delete_where_def)

lemma createUser_twice:
  assumes "table_ok u_id (usersTable db)"
  shows "\<exists>u1 u2. fst (createUser now input db) = Inr u1 \<and>
      fst (createUser later input (snd (createUser now input db))) = Inr u2 \<and>
      rows (usersTable (snd (createUser later input (snd (createUser now input db))))) =
        rows (usersTable db) @ [u1, u2] \<and>
      u_id u1 \<noteq> u_id u2 \<and>
      (\<forall>r\<in>set (rows (usersTable db)). u_id r \<noteq> u_id u1 \<and> u_id r \<noteq> u_id u2) \<and>
      next_id (usersTable db) \<le> u_id u1 \<and> u_id u1 < u_id u2"
  using assms by (fastforce simp: createUser_eq values_id table_ok_def)

lemma createCategory_twice:
  assumes "table_ok c_id (categoriesTable db)"
  shows "\<exists>c1 c2. fst (createCategory now input db) = Inr c1 \<and>
      fst (createCategory later input (snd (createCategory now input db))) = Inr c2 \<and>
      rows (categoriesTable
              (snd (createCategory later input (snd (createCategory now input db))))) =
        rows (categoriesTable db) @ [c1, c2] \<and>
      c_id c1 \<noteq> c_id c2 \<and>
      (\<forall>r\<in>set (rows (categoriesTable db)). c_id r \<noteq> c_id c1 \<and> c_id r \<noteq> c_id c2) \<and>
      next_id (categoriesTable db) \<le> c_id c1 \<and> c_id c1 < c_id c2"
  using assms by (fastforce simp: createCategory_eq values_id table_ok_def)

lemma createProduct_twice:
  assumes "table_ok p_id (productsTable db)"
  shows "\<exists>p1 p2. fst (createProduct js now input db) = Inr (product_of_row js p1) \<and>
      fst (createProduct js later input (snd (createProduct js now input db))) =
        Inr (product_of_row js p2) \<and>
      rows (productsTable
              (snd (createProduct js later input (snd (createProduct js now input db))))) =
        rows (productsTable db) @ [p1, p2] \<and>
      p_id p1 \<noteq> p_id p2 \<and>
      (\<forall>r\<in>set (rows (productsTable db)). p_id r \<noteq> p_id p1 \<and> p_id r \<noteq> p_id p2) \<and>
      next_id (productsTable db) \<le> p_id p1 \<and> p_id p1 < p_id p2"
  using assms by (fastforce simp: createProduct_eq values_id table_ok_def)

lemma createOrder_twice:
  assumes "table_ok o_id (ordersTable db)"
    and "\<exists>r\<in>set (rows (usersTable db)). u_id r = co_user_id input"
  shows "\<exists>o1 o2. fst (createOrder js now input db) = Inr (order_of_row js o1) \<and>
      fst (createOrder js later input (snd (createOrder js now input db))) =
        Inr (order_of_row js o2) \<and>
      rows (ordersTable
              (snd (createOrder js later input (snd (createOrder js now input db))))) =
        rows (ordersTable db) @ [o1, o2] \<and>
      o_id o1 \<noteq> o_id o2 \<and>
      (\<forall>r\<in>set (rows (ordersTable db)). o_id r \<noteq> o_id o1 \<and> o_id r \<noteq> o_id o2) \<and>
      next_id (ordersTable db) \<le> o_id o1 \<and> o_id o1 < o_id o2"
proof -
  let ?o1 = "order_values js now input (next_id (ordersTable db))"
  let ?db1 = "db\<lparr>ordersTable := \<lparr>rows = rows (ordersTable db) @ [?o1],
                                   next_id = next_id (ordersTable db) + 1\<rparr>\<rparr>"
  let ?o2 = "order_values js later input (next_id (ordersTable db) + 1)"
  have e1: "createOrder js now input db = (Inr (order_of_row js ?o1), ?db1)"
    by (rule createOrder_eq [OF assms(2)])
  have "\<exists>r\<in>set (rows (usersTable ?db1)). u_id r = co_user_id input"
    using assms(2) by simp
  from createOrder_eq [OF this, of js later]
  have e2: "createOrder js later input ?db1 =
      (Inr (order_of_row js ?o2),
       db\<lparr>ordersTable := \<lparr>rows = rows (ordersTable db) @ [?o1, ?o2],
                            next_id = next_id (ordersTable db) + 1 + 1\<rparr>\<rparr>)"
    by simp
  from assms(1) show ?thesis
    by (intro exI [of _ ?o1] exI [of _ ?o2])
       (fastforce simp: e1 e2 values_id table_ok_def)
qed

lemma createOrderItem_twice:
  assumes "table_ok oi_id (orderItemsTable db)"
    and "\<exists>r\<in>set (rows (ordersTable db)). o_id r = coi_order_id input"
    and "\<exists>r\<in>set (rows (productsTable db)). p_id r = coi_product_id input"
  shows "\<exists>i1 i2. fst (createOrderItem js now input db) = Inr (order_item_of_row js i1) \<and>
      fst (createOrderItem js later input (snd (createOrderItem js now input db))) =
        Inr (order_item_of_row js i2) \<and>
      rows (orderItemsTable
          (snd (createOrderItem js later input (snd (createOrderItem js now input db))))) =
        rows (orderItemsTable db) @ [i1, i2] \<and>
      oi_id i1 \<noteq> oi_id i2 \<and>
      (\<forall>r\<in>set (rows (orderItemsTable db)). oi_id r \<noteq> oi_id i1 \<and> oi_id r \<noteq> oi_id i2) \<and>
      next_id (orderItemsTable db) \<le> oi_id i1 \<and> oi_id i1 < oi_id i2"
proof -
  let ?i1 = "order_item_values js now input (next_id (orderItemsTable db))"
  let ?db1 = "db\<lparr>orderItemsTable := \<lparr>rows = rows (orderItemsTable db) @ [?i1],
                                   next_id = next_id (orderItemsTable db) + 1\<rparr>\<rparr>"
  let ?i2 = "order_item_values js later input (next_id (orderItemsTable db) + 1)"
  have e1: "createOrderItem js now input db = (Inr (order_item_of_row js ?i1), ?db1)"
    by (rule createOrderItem_eq [OF assms(2,3)])
  have "\<exists>r\<in>set (rows (ordersTable ?db1)). o_id r = coi_order_id input"
    and "\<exists>r\<in>set (rows (productsTable ?db1)). p_id r = coi_product_id input"
    using assms(2,3) by simp_all
  from createOrderItem_eq [OF this, of js later]
  have e2: "createOrderItem js later input ?db1 =
      (Inr (order_item_of_row js ?i2),
       db\<lparr>orderItemsTable := \<lparr>rows = rows (orderItemsTable db) @ [?i1, ?i2],
                            next_id = next_id (orderItemsTable db) + 1 + 1\<rparr>\<rparr>)"
    by simp
  from assms(1) show ?thesis
    by (intro exI [of _ ?i1] exI [of _ ?i2])
       (fastforce simp: e1 e2 values_id table_ok_def)
qed

lemma seeded_reachable: "reachable text_codec seeded_db"
  unfolding seeded_db_def by (intro reachable.intros)

lemma seeded_tables:
  "usersTable seeded_db = \<lparr>rows = [user_values 1000 user_input_minimal 1], next_id = 2\<rparr>"
  "categoriesTable seeded_db =
     \<lparr>rows = [category_values 1000 category_input_minimal 1], next_id = 2\<rparr>"
  "productsTable seeded_db =
     \<lparr>rows = [product_values text_codec 1000 product_input_minimal 1], next_id = 2\<rparr>"
  "ordersTable seeded_db =
     \<lparr>rows = [order_values text_codec 1000 order_input_minimal 1], next_id = 2\<rparr>"
  "orderItemsTable seeded_db = \<lparr>rows = [], next_id = 1\<rparr>"
  by (simp_all add: seeded_db_def createUser_eq createCategory_eq createProduct_eq
      createOrder_eq empty_db_def empty_table_def values_id order_input_minimal_def)

subsection \<open>Claim C9: create is not idempotent\<close>

text \<open>
  C9. In every reachable state, for every input, calling a create handler twice with the
  same input (for an order, its user existing; for an order item, its order and its
  product existing) succeeds both times and appends two rows to the table. Their keys
  differ, neither is the key of a row stored before, and neither is below the value the
  table's sequence had before the calls: the keys handed out earlier are all below that
  value, since the sequence starts at 1, each insert takes its value and adds one, and
  no call lowers it (\<open>next_id_mono\<close>).
\<close>

theorem create_twice_two_rows:
  "reachable js db \<longrightarrow>
   (\<exists>u1 u2. fst (createUser now uin db) = Inr u1 \<and>
      fst (createUser later uin (snd (createUser now uin db))) = Inr u2 \<and>
      rows (usersTable (snd (createUser later uin (snd (createUser now uin db))))) =
        rows (usersTable db) @ [u1, u2] \<and>
      u_id u1 \<noteq> u_id u2 \<and>
      (\<forall>r\<in>set (rows (usersTable db)). u_id r \<noteq> u_id u1 \<and> u_id r \<noteq> u_id u2) \<and>
      next_id (usersTable db) \<le> u_id u1 \<and> u_id u1 < u_id u2) \<and>
   (\<exists>c1 c2. fst (createCategory now cin db) = Inr c1 \<and>
      fst (createCategory later cin (snd (createCategory now cin db))) = Inr c2 \<and>
      rows (categoriesTable
              (snd (createCategory later cin (snd (createCategory now cin db))))) =
        rows (categoriesTable db) @ [c1, c2] \<and>
      c_id c1 \<noteq> c_id c2 \<and>
      (\<forall>r\<in>set (rows (categoriesTable db)). c_id r \<noteq> c_id c1 \<and> c_id r \<noteq> c_id c2) \<and>
      next_id (categoriesTable db) \<le> c_id c1 \<and> c_id c1 < c_id c2) \<and>
   (\<exists>p1 p2. fst (createProduct js now pin db) = Inr (product_of_row js p1) \<and>
      fst (createProduct js later pin (snd (createProduct js now pin db))) =
        Inr (product_of_row js p2) \<and>
      rows (productsTable
              (snd (createProduct js later pin (snd (createProduct js now pin db))))) =
        rows (productsTable db) @ [p1, p2] \<and>
      p_id p1 \<noteq> p_id p2 \<and>
      (\<forall>r\<in>set (rows (productsTable db)). p_id r \<noteq> p_id p1 \<and> p_id r \<noteq> p_id p2) \<and>
      next_id (productsTable db) \<le> p_id p1 \<and> p_id p1 < p_id p2) \<and>
   ((\<exists>r\<in>set (rows (usersTable db)). u_id r = co_user_id oin) \<longrightarrow>
    (\<exists>o1 o2. fst (createOrder js now oin db) = Inr (order_of_row js o1) \<and>
      fst (createOrder js later oin (snd (createOrder js now oin db))) =
        Inr (order_of_row js o2) \<and>
      rows (ordersTable
              (snd (createOrder js later oin (snd (createOrder js now oin db))))) =
        rows (ordersTable db) @ [o1, o2] \<and>
      o_id o1 \<noteq> o_id o2 \<and>
      (\<forall>r\<in>set (rows (ordersTable db)). o_id r \<noteq> o_id o1 \<and> o_id r \<noteq> o_id o2) \<and>
      next_id (ordersTable db) \<le> o_id o1 \<and> o_id o1 < o_id o2)) \<and>
   ((\<exists>r\<in>set (rows (ordersTable db)). o_id r = coi_order_id iin) \<and>
    (\<exists>r\<in>set (rows (productsTable db)). p_id r = coi_product_id iin) \<longrightarrow>
    (\<exists>i1 i2. fst (createOrderItem js now iin db) = Inr (order_item_of_row js i1) \<and>
      fst (createOrderItem js later iin (snd (createOrderItem js now iin db))) =
        Inr (order_item_of_row js i2) \<and>
      rows (orderItemsTable
          (snd (createOrderItem js later iin (snd (createOrderItem js now iin db))))) =
        rows (orderItemsTable db) @ [i1, i2] \<and>
      oi_id i1 \<noteq> oi_id i2 \<and>
      (\<forall>r\<in>set (rows (orderItemsTable db)). oi_id r \<noteq> oi_id i1 \<and> oi_id r \<noteq> oi_id i2) \<and>
      next_id (orderItemsTable db) \<le> oi_id i1 \<and> oi_id i1 < oi_id i2))"
  (is "_ \<longrightarrow> ?twice")
proof
  assume "reachable js db"
  then have ok: "db_ok db" by (rule reachable_db_ok)
  then have t: "table_ok u_id (usersTable db)" "table_ok c_id (categoriesTable db)"
    "table_ok p_id (productsTable db)" "table_ok o_id (ordersTable db)"
    "table_ok oi_id (orderItemsTable db)"
    by (simp_all add: db_ok_def)
  show ?twice
    using createUser_twice [OF t(1), of now uin later]
      createCategory_twice [OF t(2), of now cin later]
      createProduct_twice [OF t(3), of js now pin later]
      createOrder_twice [OF t(4), of oin js now later]
      createOrderItem_twice [OF t(5), of iin js now later]
    by (intro conjI impI) simp_all
qed

theorem create_twice_two_rows_witness:
  "reachable text_codec seeded_db \<and>
   (\<exists>u1 u2. fst (createUser 2000 user_input_minimal seeded_db) = Inr u1 \<and>
      fst (createUser 3000 user_input_minimal
             (snd (createUser 2000 user_input_minimal seeded_db))) = Inr u2 \<and>
      u_id u1 = 2 \<and> u_id u2 = 3) \<and>
   (\<exists>r\<in>set (rows (usersTable seeded_db)). u_id r = co_user_id order_input_minimal) \<and>
   (\<exists>o1 o2. fst (createOrder text_codec 2000 order_input_minimal seeded_db) = Inr o1 \<and>
      fst (createOrder text_codec 3000 order_input_minimal
             (snd (createOrder text_codec 2000 order_input_minimal seeded_db))) = Inr o2 \<and>
      o_id o1 = 2 \<and> o_id o2 = 3) \<and>
   (\<exists>r\<in>set (rows (ordersTable seeded_db)). o_id r = coi_order_id item_input_ok) \<and>
   (\<exists>r\<in>set (rows (productsTable seeded_db)). p_id r = coi_product_id item_input_ok) \<and>
   (\<exists>i1 i2. fst (createOrderItem text_codec 2000 item_input_ok seeded_db) = Inr i1 \<and>
      fst (createOrderItem text_codec 3000 item_input_ok
             (snd (createOrderItem text_codec 2000 item_input_ok seeded_db))) = Inr i2 \<and>
      oi_id i1 = 1 \<and> oi_id i2 = 2)"
proof -
  have u: "\<exists>r\<in>set (rows (usersTable seeded_db)). u_id r = co_user_id order_input_minimal"
    by (simp add: seeded_tables values_id order_input_minimal_def)
  have o: "\<exists>r\<in>set (rows (ordersTable seeded_db)). o_id r = coi_order_id item_input_ok"
    and p: "\<exists>r\<in>set (rows (productsTable seeded_db)). p_id r = coi_product_id item_input_ok"
    by (simp_all add: seeded_tables values_id item_input_ok_def)
  from create_twice_two_rows [where js = text_codec and db = seeded_db and now = 2000
      and later = 3000 and uin = user_input_minimal and cin = category_input_minimal
      and pin = product_input_minimal and oin = order_input_minimal
      and iin = item_input_ok, THEN mp, OF seeded_reachable] u o p
  show ?thesis
    by (simp add: seeded_reachable createUser_eq createOrder_eq createOrderItem_eq
        seeded_tables values_id order_of_row_def order_item_of_row_def)
qed

subsection \<open>Claim C5: the price survives its textual storage\<close>

lemma product_of_row_id: "p_id (product_of_row js r) = p_id r"
  by (simp add: product_of_row_def)

lemma filter_fresh_key:
  fixes n :: int
  assumes "\<forall>r\<in>set xs. key r < n" and "key new = n"
  shows "filter (\<lambda>r. key r = n) (xs @ [new]) = [new]"
proof -
  from assms(1) have "filter (\<lambda>r. key r = n) xs = []"
    by (fastforce simp: filter_empty_conv)
  with assms(2) show ?thesis by simp
qed

lemma createProduct_round_trip:
  assumes ok: "table_ok p_id (productsTable db)"
    and rt: "parseFloat js (toString js (cp_price input)) = cp_price input"
  shows "\<exists>p. fst (createProduct js now input db) = Inr p \<and> p_price p = cp_price input \<and>
      fst (getProductById js (KeyValue (p_id p)) (snd (createProduct js now input db))) = Inr (Some p) \<and>
      (\<exists>ps. fst (getProducts js (snd (createProduct js now input db))) = Inr ps \<and>
            p \<in> set ps \<and> (\<forall>q\<in>set ps. p_id q = p_id p \<longrightarrow> q = p))"
proof -
  let ?n = "next_id (productsTable db)"
  let ?new = "product_values js now input ?n"
  let ?p = "product_of_row js ?new"
  let ?db' = "snd (createProduct js now input db)"
  have r: "rows (productsTable ?db') = rows (productsTable db) @ [?new]"
    by (simp add: createProduct_eq)
  have below: "\<forall>r\<in>set (rows (productsTable db)). p_id r < ?n"
    using ok by (simp add: table_ok_def)
  have f: "filter (\<lambda>r. p_id r = ?n) (rows (productsTable ?db')) = [?new]"
    unfolding r by (rule filter_fresh_key [OF below]) (simp add: values_id)
  have 1: "fst (createProduct js now input db) = Inr ?p"
    by (simp add: createProduct_eq)
  have 2: "p_price ?p = cp_price input"
    using rt by (simp add: product_of_row_def product_values_def)
  have 3: "fst (getProductById js (KeyValue (p_id ?p)) ?db') = Inr (Some ?p)"
    using f by (simp add: getProductById_def select_by_id_def select_where_def product_of_row_id values_id)
  have 4: "fst (getProducts js ?db') = Inr (map (product_of_row js) (rows (productsTable ?db')))"
    by (simp add: getProducts_def)
  have 5: "?p \<in> set (map (product_of_row js) (rows (productsTable ?db')))"
    unfolding r by simp
  have 6: "\<forall>q\<in>set (map (product_of_row js) (rows (productsTable ?db'))).
             p_id q = p_id ?p \<longrightarrow> q = ?p"
  proof (intro ballI impI)
    fix q assume q: "q \<in> set (map (product_of_row js) (rows (productsTable ?db')))"
      and i: "p_id q = p_id ?p"
    from q obtain x where x: "x \<in> set (rows (productsTable ?db'))" "q = product_of_row js x"
      by auto
    with i have "p_id x = ?n" by (simp add: product_of_row_id values_id)
    with x(1) have "x \<in> set (filter (\<lambda>r. p_id r = ?n) (rows (productsTable ?db')))"
      by simp
    with f have "x = ?new" by simp
    with x(2) show "q = ?p" by simp
  qed
  from 1 2 3 4 5 6 show ?thesis by blast
qed

text \<open>
  C5. In every reachable state, creating a product whose price \<open>p\<close> is a number that
  \<open>parseFloat\<close> reads back from its \<open>toString\<close> returns a product with the price
  \<open>p\<close>; \<open>getProductById\<close> on its key returns that same product, and
  \<open>getProducts\<close> lists it, as the only product with that key. The price of every
  product returned has the number type \<open>'n\<close>, the stored one is text: each read path
  applies \<open>parseFloat\<close> (\<open>product_of_row\<close>) to the stored row.
\<close>

theorem price_round_trip:
  "reachable js db \<and> parseFloat js (toString js (cp_price input)) = cp_price input \<longrightarrow>
   (\<exists>p. fst (createProduct js now input db) = Inr p \<and> p_price p = cp_price input \<and>
      fst (getProductById js (KeyValue (p_id p)) (snd (createProduct js now input db))) = Inr (Some p) \<and>
      (\<exists>ps. fst (getProducts js (snd (createProduct js now input db))) = Inr ps \<and>
            p \<in> set ps \<and> (\<forall>q\<in>set ps. p_id q = p_id p \<longrightarrow> q = p)))"
  (is "_ \<longrightarrow> ?round_trip")
proof
  assume a: "reachable js db \<and>
    parseFloat js (toString js (cp_price input)) = cp_price input"
  then have "db_ok db" using reachable_db_ok by blast
  then have "table_ok p_id (productsTable db)" by (simp add: db_ok_def)
  from createProduct_round_trip [OF this, of js input now] a
  show ?round_trip
    by simp
qed

theorem price_round_trip_witness:
  "reachable text_codec seeded_db \<and>
   parseFloat text_codec (toString text_codec (cp_price product_input_test)) =
     cp_price product_input_test \<and>
   (\<exists>p. fst (createProduct text_codec 2000 product_input_test seeded_db) = Inr p \<and>
      p_price p = Decimal ''19.99'' \<and>
      fst (getProductById text_codec (KeyValue (p_id p))
             (snd (createProduct text_codec 2000 product_input_test seeded_db))) =
        Inr (Some p))"
proof -
  have rt: "parseFloat text_codec (toString text_codec (cp_price product_input_test)) =
     cp_price product_input_test"
    by (simp add: text_codec_def product_input_test_def)
  from price_round_trip [where js = text_codec and db = seeded_db and now = 2000
      and input = product_input_test] seeded_reachable rt
  show ?thesis by (auto simp: product_input_test_def)
qed

subsection \<open>Timestamps under a clock that never goes back\<close>

lemma rows_insert:
  "set (rows (snd (insert_returning mk t))) = insert (mk (next_id t)) (set (rows t))"
  by (simp add: insert_returning_eq)

lemma rows_update:
  assumes "x \<in> set (rows (snd (update_where P f t)))"
  shows "x \<in> set (rows t) \<or> (\<exists>r\<in>set (rows t). x = f r)"
  using assms by (auto simp: update_where_def split: if_splits)

lemma rows_delete:
  assumes "x \<in> set (rows (snd (delete_where P t)))"
  shows "x \<in> set (rows t)"
  using assms by (simp add: delete_where_def)

lemma values_stamps:
  "u_created_at (user_values now uin i) = now" "u_updated_at (user_values now uin i) = now"
  "c_created_at (category_values now cin i) = now"
  "c_updated_at (category_values now cin i) = now"
  "p_created_at (product_values js now pin i) = now"
  "p_updated_at (product_values js now pin i) = now"
  "o_created_at (order_values js now oin i) = now"
  "o_updated_at (order_values js now oin i) = now"
  by (simp_all add: user_values_def category_values_def product_values_def
      order_values_def)

lemma update_stamps:
  "u_created_at (user_updateValues now uuin u) = u_created_at u"
  "u_updated_at (user_updateValues now uuin u) = now"
  "c_created_at (category_updateData now ucin c) = c_created_at c"
  "c_updated_at (category_updateData now ucin c) = now"
  "p_created_at (product_updateValues js now upin p) = p_created_at p"
  "p_updated_at (product_updateValues js now upin p) = now"
  "o_created_at (order_updateData js now uoin ord) = o_created_at ord"
  "o_updated_at (order_updateData js now uoin ord) = now"
  "oi_created_at (order_item_updateValues js uiin it) = oi_created_at it"
  by (simp_all add: user_updateValues_def category_updateData_def
      product_updateValues_def order_updateData_def order_item_updateValues_def)

lemma stamps_ok_later:
  assumes "stamps_ok t db" "t \<le> now"
  shows "stamps_ok now db"
  using assms by (fastforce simp: stamps_ok_def)

lemma stamps_ok_users:
  assumes "stamps_ok now db"
    and "\<forall>r\<in>set (rows ut). u_created_at r \<le> u_updated_at r \<and> u_updated_at r \<le> now"
  shows "stamps_ok now (db\<lparr>usersTable := ut\<rparr>)"
  using assms by (simp add: stamps_ok_def)

lemma stamps_ok_categories:
  assumes "stamps_ok now db"
    and "\<forall>r\<in>set (rows ct). c_created_at r \<le> c_updated_at r \<and> c_updated_at r \<le> now"
  shows "stamps_ok now (db\<lparr>categoriesTable := ct\<rparr>)"
  using assms by (simp add: stamps_ok_def)

lemma stamps_ok_products:
  assumes "stamps_ok now db"
    and "\<forall>r\<in>set (rows pt). p_created_at r \<le> p_updated_at r \<and> p_updated_at r \<le> now"
  shows "stamps_ok now (db\<lparr>productsTable := pt\<rparr>)"
  using assms by (simp add: stamps_ok_def)

lemma stamps_ok_orders:
  assumes "stamps_ok now db"
    and "\<forall>r\<in>set (rows ot). o_created_at r \<le> o_updated_at r \<and> o_updated_at r \<le> now"
  shows "stamps_ok now (db\<lparr>ordersTable := ot\<rparr>)"
  using assms by (simp add: stamps_ok_def)

lemma stamps_ok_items: "stamps_ok now (db\<lparr>orderItemsTable := it\<rparr>) = stamps_ok now db"
  by (simp add: stamps_ok_def)

lemma stamps_ok_rows:
  assumes "stamps_ok now db"
  shows "\<forall>r\<in>set (rows (usersTable db)). u_created_at r \<le> u_updated_at r \<and> u_updated_at r \<le> now"
    "\<forall>r\<in>set (rows (categoriesTable db)). c_created_at r \<le> c_updated_at r \<and> c_updated_at r \<le> now"
    "\<forall>r\<in>set (rows (productsTable db)). p_created_at r \<le> p_updated_at r \<and> p_updated_at r \<le> now"
    "\<forall>r\<in>set (rows (ordersTable db)). o_created_at r \<le> o_updated_at r \<and> o_updated_at r \<le> now"
  using assms by (simp_all add: stamps_ok_def)

lemma stamps_ok_call_now:
  assumes s: "stamps_ok now db"
  shows "stamps_ok now (appRouter js now call db)"
proof (cases call)
  case (Users_create input)
  from stamps_ok_rows(1) [OF s] show ?thesis
    unfolding Users_create appRouter.simps snd_createUser
    by (intro stamps_ok_users [OF s]) (auto simp: rows_insert values_stamps)
next
  case (Users_update input)
  have "stamps_ok now (db\<lparr>usersTable := snd (update_where (\<lambda>r. u_id r = uu_id input)
                             (user_updateValues now input) (usersTable db))\<rparr>)"
    using stamps_ok_rows(1) [OF s]
    by (intro stamps_ok_users [OF s]) (auto dest!: rows_update simp: update_stamps)
  with s snd_updateUser [of now input db] Users_update show ?thesis by auto
next
  case (Users_delete i)
  have "stamps_ok now (db\<lparr>usersTable := snd (delete_where (\<lambda>r. u_id r = i) (usersTable db))\<rparr>)"
    using stamps_ok_rows(1) [OF s]
    by (intro stamps_ok_users [OF s]) (auto dest!: rows_delete)
  with s snd_deleteUser [of i db] Users_delete show ?thesis by auto
next
  case (Categories_create input)
  from stamps_ok_rows(2) [OF s] show ?thesis
    unfolding Categories_create appRouter.simps snd_createCategory
    by (intro stamps_ok_categories [OF s]) (auto simp: rows_insert values_stamps)
next
  case (Categories_update input)
  from stamps_ok_rows(2) [OF s] show ?thesis
    unfolding Categories_update appRouter.simps snd_updateCategory
    by (intro stamps_ok_categories [OF s]) (auto dest!: rows_update simp: update_stamps)
next
  case (Categories_delete i)
  from stamps_ok_rows(2) [OF s] show ?thesis
    unfolding Categories_delete appRouter.simps snd_deleteCategory
    by (intro stamps_ok_categories [OF s]) (auto dest!: rows_delete)
next
  case (Products_create input)
  from stamps_ok_rows(3) [OF s] show ?thesis
    unfolding Products_create appRouter.simps snd_createProduct
    by (intro stamps_ok_products [OF s]) (auto simp: rows_insert values_stamps)
next
  case (Products_update input)
  from stamps_ok_rows(3) [OF s] show ?thesis
    unfolding Products_update appRouter.simps snd_updateProduct
    by (intro stamps_ok_products [OF s]) (auto dest!: rows_update simp: update_stamps)
next
  case (Products_delete i)
  from stamps_ok_rows(3) [OF s] show ?thesis
    unfolding Products_delete appRouter.simps snd_deleteProduct
    by (intro stamps_ok_products [OF s]) (auto dest!: rows_delete)
next
  case (Orders_create input)
  have "stamps_ok now (db\<lparr>ordersTable :=
          snd (insert_returning (order_values js now input) (ordersTable db))\<rparr>)"
    using stamps_ok_rows(4) [OF s]
    by (intro stamps_ok_orders [OF s]) (auto simp: rows_insert values_stamps)
  with s snd_createOrder [of js now input db] Orders_create show ?thesis by auto
next
  case (Orders_update input)
  have "stamps_ok now (db\<lparr>ordersTable := snd (update_where (\<lambda>r. o_id r = uo_id input)
                             (order_updateData js now input) (ordersTable db))\<rparr>)"
    using stamps_ok_rows(4) [OF s]
    by (intro stamps_ok_orders [OF s]) (auto dest!: rows_update simp: update_stamps)
  with s snd_updateOrder [of js now input db] Orders_update show ?thesis by auto
next
  case (Orders_delete i)
  from stamps_ok_rows(4) [OF s] show ?thesis
    unfolding Orders_delete appRouter.simps snd_deleteOrder
    by (intro stamps_ok_orders [OF s]) (auto dest!: rows_delete)
next
  case (OrderItems_create input)
  with s snd_createOrderItem [of js now input db] show ?thesis
    by (auto simp: stamps_ok_items)
next
  case (OrderItems_update input)
  with s snd_updateOrderItem [of js input db] show ?thesis
    by (auto simp: stamps_ok_items)
next
  case (OrderItems_delete i)
  with s show ?thesis by (simp add: snd_deleteOrderItem stamps_ok_items)
qed (use s in \<open>simp_all add: snd_get\<close>)

lemma stamps_ok_empty: "stamps_ok t empty_db"
  by (simp add: stamps_ok_def empty_db_def empty_table_def)

lemma reachable_by_stamps_ok: "reachable_by js t db \<Longrightarrow> stamps_ok t db"
proof (induction rule: reachable_by.induct)
  case (reachable_by_empty t)
  show ?case by (rule stamps_ok_empty)
next
  case (reachable_by_call t db now call)
  from stamps_ok_later [OF reachable_by_call.IH reachable_by_call.hyps(2)]
  show ?case by (rule stamps_ok_call_now)
qed

lemma reachable_by_reachable: "reachable_by js t db \<Longrightarrow> reachable js db"
  by (induction rule: reachable_by.induct) (auto intro: reachable.intros)

lemma update_where_keeps:
  assumes "\<And>r. g (f r) = g r"
  shows "map g (rows (snd (update_where P f t))) = map g (rows t)"
  using assms by (simp add: update_where_def comp_def if_distrib cong: if_cong)

lemma update_keeps_keys:
  "map u_id (rows (usersTable (snd (updateUser now uin db)))) =
     map u_id (rows (usersTable db)) \<and>
   map u_created_at (rows (usersTable (snd (updateUser now uin db)))) =
     map u_created_at (rows (usersTable db))"
  "map c_id (rows (categoriesTable (snd (updateCategory now cin db)))) =
     map c_id (rows (categoriesTable db)) \<and>
   map c_created_at (rows (categoriesTable (snd (updateCategory now cin db)))) =
     map c_created_at (rows (categoriesTable db))"
  "map p_id (rows (productsTable (snd (updateProduct js now pin db)))) =
     map p_id (rows (productsTable db)) \<and>
   map p_created_at (rows (productsTable (snd (updateProduct js now pin db)))) =
     map p_created_at (rows (productsTable db))"
  "map o_id (rows (ordersTable (snd (updateOrder js now oin db)))) =
     map o_id (rows (ordersTable db)) \<and>
   map o_created_at (rows (ordersTable (snd (updateOrder js now oin db)))) =
     map o_created_at (rows (ordersTable db))"
  "map oi_id (rows (orderItemsTable (snd (updateOrderItem js iin db)))) =
     map oi_id (rows (orderItemsTable db)) \<and>
   map oi_created_at (rows (orderItemsTable (snd (updateOrderItem js iin db)))) =
     map oi_created_at (rows (orderItemsTable db))"
  using snd_updateUser [of now uin db] snd_updateCategory [of now cin db]
    snd_updateProduct [of js now pin db] snd_updateOrder [of js now oin db]
    snd_updateOrderItem [of js iin db]
  by (auto simp: update_where_keeps update_id update_stamps)

lemma updateUser_success:
  assumes "fst (updateUser now input db) = Inr new"
  shows "\<exists>r\<in>set (rows (usersTable db)).
           u_id r = uu_id input \<and> new = user_updateValues now input r"
  using assms updateUser_cases [of db input now] by (auto split: if_splits)

lemma updateCategory_success:
  assumes "fst (updateCategory now input db) = Inr new"
  shows "\<exists>r\<in>set (rows (categoriesTable db)).
           c_id r = uc_id input \<and> new = category_updateData now input r"
  using assms updateCategory_cases [of db input now] by (auto split: if_splits)

lemma updateProduct_success:
  assumes "fst (updateProduct js now input db) = Inr new"
  shows "\<exists>r\<in>set (rows (productsTable db)).
           p_id r = up_id input \<and> new = product_of_row js (product_updateValues js now input r)"
  using assms updateProduct_cases [of db input js now] by (auto split: if_splits)

lemma updateOrder_success:
  assumes "fst (updateOrder js now input db) = Inr new"
  shows "\<exists>r\<in>set (rows (ordersTable db)).
           o_id r = uo_id input \<and> new = order_of_row js (order_updateData js now input r)"
proof (cases "\<forall>uid. uo_user_id input = Some uid \<longrightarrow>
             (\<exists>r\<in>set (rows (usersTable db)). u_id r = uid)")
  case True
  from updateOrder_cases [OF True, of js now] assms show ?thesis
    by (auto split: if_splits)
next
  case False
  then obtain uid where "uo_user_id input = Some uid"
    "\<forall>r\<in>set (rows (usersTable db)). u_id r \<noteq> uid" by auto
  from updateOrder_missing_user [OF this, of js now] assms show ?thesis by simp
qed

lemma updateUser_advances:
  assumes r: "reachable_by js t db" and le: "t \<le> now"
    and ok: "fst (updateUser now uin db) = Inr new_user"
  shows "u_updated_at new_user = now \<and>
      (\<forall>old\<in>set (rows (usersTable db)). u_id old = u_id new_user \<longrightarrow>
          u_created_at new_user = u_created_at old \<and> u_updated_at old \<le> u_updated_at new_user)"
proof -
  from updateUser_success [OF ok] obtain r where r0: "r \<in> set (rows (usersTable db))"
    and new: "new_user = user_updateValues now uin r" by blast
  from reachable_db_ok [OF reachable_by_reachable [OF r]]
  have d: "distinct (map u_id (rows (usersTable db)))" by (simp add: db_ok_def table_ok_def)
  from stamps_ok_rows(1) [OF reachable_by_stamps_ok [OF r]]
  have st: "\<forall>x\<in>set (rows (usersTable db)). u_updated_at x \<le> t" by simp
  have a: "u_updated_at new_user = now" "u_created_at new_user = u_created_at r" "u_id new_user = u_id r"
    by (simp_all add: new update_id update_stamps)
  have "u_created_at old = u_created_at r \<and> u_updated_at old \<le> now" if "old \<in> set (rows (usersTable db))" "u_id old = u_id new_user" for old
  proof -
    from that a(3) have "u_id old = u_id r" by simp
    from key_unique [OF d that(1) r0 this] have "old = r" .
    moreover from st that(1) le have "u_updated_at old \<le> now" by fastforce
    ultimately show ?thesis by simp
  qed
  with a show ?thesis by auto
qed

lemma updateCategory_advances:
  assumes r: "reachable_by js t db" and le: "t \<le> now"
    and ok: "fst (updateCategory now cin db) = Inr new_category"
  shows "c_updated_at new_category = now \<and>
      (\<forall>old\<in>set (rows (categoriesTable db)). c_id old = c_id new_category \<longrightarrow>
          c_created_at new_category = c_created_at old \<and> c_updated_at old \<le> c_updated_at new_category)"
proof -
  from updateCategory_success [OF ok] obtain r where r0: "r \<in> set (rows (categoriesTable db))"
    and new: "new_category = category_updateData now cin r" by blast
  from reachable_db_ok [OF reachable_by_reachable [OF r]]
  have d: "distinct (map c_id (rows (categoriesTable db)))" by (simp add: db_ok_def table_ok_def)
  from stamps_ok_rows(2) [OF reachable_by_stamps_ok [OF r]]
  have st: "\<forall>x\<in>set (rows (categoriesTable db)). c_updated_at x \<le> t" by simp
  have a: "c_updated_at new_category = now" "c_created_at new_category = c_created_at r" "c_id new_category = c_id r"
    by (simp_all add: new update_id update_stamps)
  have "c_created_at old = c_created_at r \<and> c_updated_at old \<le> now" if "old \<in> set (rows (categoriesTable db))" "c_id old = c_id new_category" for old
  proof -
    from that a(3) have "c_id old = c_id r" by simp
    from key_unique [OF d that(1) r0 this] have "old = r" .
    moreover from st that(1) le have "c_updated_at old \<le> now" by fastforce
    ultimately show ?thesis by simp
  qed
  with a show ?thesis by auto
qed

lemma updateProduct_advances:
  assumes r: "reachable_by js t db" and le: "t \<le> now"
    and ok: "fst (updateProduct js now pin db) = Inr new_product"
  shows "p_updated_at new_product = now \<and>
      (\<forall>old\<in>set (rows (productsTable db)). p_id old = p_id new_product \<longrightarrow>
          p_created_at new_product = p_created_at old \<and> p_updated_at old \<le> p_updated_at new_product)"
proof -
  from updateProduct_success [OF ok] obtain r where r0: "r \<in> set (rows (productsTable db))"
    and new: "new_product = product_of_row js (product_updateValues js now pin r)" by blast
  from reachable_db_ok [OF reachable_by_reachable [OF r]]
  have d: "distinct (map p_id (rows (productsTable db)))" by (simp add: db_ok_def table_ok_def)
  from stamps_ok_rows(3) [OF reachable_by_stamps_ok [OF r]]
  have st: "\<forall>x\<in>set (rows (productsTable db)). p_updated_at x \<le> t" by simp
  have a: "p_updated_at new_product = now" "p_created_at new_product = p_created_at r" "p_id new_product = p_id r"
    by (simp_all add: new update_id update_stamps product_of_row_def)
  have "p_created_at old = p_created_at r \<and> p_updated_at old \<le> now" if "old \<in> set (rows (productsTable db))" "p_id old = p_id new_product" for old
  proof -
    from that a(3) have "p_id old = p_id r" by simp
    from key_unique [OF d that(1) r0 this] have "old = r" .
    moreover from st that(1) le have "p_updated_at old \<le> now" by fastforce
    ultimately show ?thesis by simp
  qed
  with a show ?thesis by auto
qed

lemma updateOrder_advances:
  assumes r: "reachable_by js t db" and le: "t \<le> now"
    and ok: "fst (updateOrder js now oin db) = Inr new_order"
  shows "o_updated_at new_order = now \<and>
      (\<forall>old\<in>set (rows (ordersTable db)). o_id old = o_id new_order \<longrightarrow>
          o_created_at new_order = o_created_at old \<and> o_updated_at old \<le> o_updated_at new_order)"
proof -
  from updateOrder_success [OF ok] obtain r where r0: "r \<in> set (rows (ordersTable db))"
    and new: "new_order = order_of_row js (order_updateData js now oin r)" by blast
  from reachable_db_ok [OF reachable_by_reachable [OF r]]
  have d: "distinct (map o_id (rows (ordersTable db)))" by (simp add: db_ok_def table_ok_def)
  from stamps_ok_rows(4) [OF reachable_by_stamps_ok [OF r]]
  have st: "\<forall>x\<in>set (rows (ordersTable db)). o_updated_at x \<le> t" by simp
  have a: "o_updated_at new_order = now" "o_created_at new_order = o_created_at r" "o_id new_order = o_id r"
    by (simp_all add: new update_id update_stamps order_of_row_def)
  have "o_created_at old = o_created_at r \<and> o_updated_at old \<le> now" if "old \<in> set (rows (ordersTable db))" "o_id old = o_id new_order" for old
  proof -
    from that a(3) have "o_id old = o_id r" by simp
    from key_unique [OF d that(1) r0 this] have "old = r" .
    moreover from st that(1) le have "o_updated_at old \<le> now" by fastforce
    ultimately show ?thesis by simp
  qed
  with a show ?thesis by auto
qed

subsection \<open>Claim C7: timestamps and keys in every reachable state\<close>

text \<open>
  C7 fails, and the code is at fault. \<open>created_at\<close> is the storage clock's reading
  at the insert and \<open>updated_at\<close> the handler's \<open>new Date()\<close> at the update, and
  no handler relates the two readings. A category created at the reading 2000 and
  updated at the same reading 2000 keeps the \<open>updated_at\<close> it had: the successful
  update has not advanced it, which the handlers' own tests expect
  (\<open>expect(result.updated_at.getTime()).toBeGreaterThan(created.updated_at.getTime())\<close>).
  Updated at the reading 1000 (the handler's clock behind
  the storage's), it is stored with \<open>updated_at < created_at\<close>. This is the defect
  of C4, seen through the router.
\<close>

theorem clock_not_advancing_counterexample:
  "reachable text_codec same_reading_db \<and>
   rows (categoriesTable (appRouter text_codec 2000
          (Categories_create category_input_minimal) empty_db)) =
     [\<lparr>c_id = 1, c_name = ''Books'', c_description = None, c_is_active = True,
       c_created_at = 2000, c_updated_at = 2000\<rparr>] \<and>
   fst (updateCategory 2000 category_update_empty
          (appRouter text_codec 2000 (Categories_create category_input_minimal) empty_db)) =
     Inr \<lparr>c_id = 1, c_name = ''Books'', c_description = Some [], c_is_active = True,
          c_created_at = 2000, c_updated_at = 2000\<rparr> \<and>
   rows (categoriesTable same_reading_db) =
     [\<lparr>c_id = 1, c_name = ''Books'', c_description = Some [], c_is_active = True,
       c_created_at = 2000, c_updated_at = 2000\<rparr>] \<and>
   reachable text_codec backdated_db \<and>
   rows (categoriesTable backdated_db) =
     [\<lparr>c_id = 1, c_name = ''Books'', c_description = Some [], c_is_active = True,
       c_created_at = 2000, c_updated_at = 1000\<rparr>] \<and>
   c_updated_at (hd (rows (categoriesTable backdated_db))) <
     c_created_at (hd (rows (categoriesTable backdated_db)))"
proof -
  have "reachable text_codec backdated_db" "reachable text_codec same_reading_db"
    unfolding backdated_db_def same_reading_db_def by (intro reachable.intros)+
  then show ?thesis
    by (simp add: backdated_db_def same_reading_db_def createCategory_eq
        updateCategory_def update_where_def category_values_def category_updateData_def
        category_input_minimal_def category_update_empty_def empty_db_def empty_table_def
        or_default_def string_or_null_def)
qed

text \<open>
  What the handlers do guarantee. As long as the clock readings of successive calls
  never decrease, every stored user, category, product and order has
  \<open>created_at \<le> updated_at\<close> (and \<open>updated_at\<close> no later than the latest reading),
  and a successful update returns \<open>updated_at\<close> equal to its clock reading, never
  earlier than the stored value, with \<open>created_at\<close> as stored. Whatever the clock
  does, no update, successful or not, changes the identity key or \<open>created_at\<close> of
  any row.
\<close>

theorem timestamps_invariant:
  "(reachable_by js t db \<longrightarrow> stamps_ok t db) \<and>
   (reachable_by js t db \<and> t \<le> now \<and> fst (updateUser now uin db) = Inr new_user \<longrightarrow>
      u_updated_at new_user = now \<and>
      (\<forall>old\<in>set (rows (usersTable db)). u_id old = u_id new_user \<longrightarrow>
          u_created_at new_user = u_created_at old \<and> u_updated_at old \<le> u_updated_at new_user)) \<and>
   (reachable_by js t db \<and> t \<le> now \<and> fst (updateCategory now cin db) = Inr new_category \<longrightarrow>
      c_updated_at new_category = now \<and>
      (\<forall>old\<in>set (rows (categoriesTable db)). c_id old = c_id new_category \<longrightarrow>
          c_created_at new_category = c_created_at old \<and> c_updated_at old \<le> c_updated_at new_category)) \<and>
   (reachable_by js t db \<and> t \<le> now \<and> fst (updateProduct js now pin db) = Inr new_product \<longrightarrow>
      p_updated_at new_product = now \<and>
      (\<forall>old\<in>set (rows (productsTable db)). p_id old = p_id new_product \<longrightarrow>
          p_created_at new_product = p_created_at old \<and> p_updated_at old \<le> p_updated_at new_product)) \<and>
   (reachable_by js t db \<and> t \<le> now \<and> fst (updateOrder js now oin db) = Inr new_order \<longrightarrow>
      o_updated_at new_order = now \<and>
      (\<forall>old\<in>set (rows (ordersTable db)). o_id old = o_id new_order \<longrightarrow>
          o_created_at new_order = o_created_at old \<and> o_updated_at old \<le> o_updated_at new_order)) \<and>
   map u_id (rows (usersTable (snd (updateUser now uin db)))) =
     map u_id (rows (usersTable db)) \<and>
   map u_created_at (rows (usersTable (snd (updateUser now uin db)))) =
     map u_created_at (rows (usersTable db)) \<and>
   map c_id (rows (categoriesTable (snd (updateCategory now cin db)))) =
     map c_id (rows (categoriesTable db)) \<and>
   map c_created_at (rows (categoriesTable (snd (updateCategory now cin db)))) =
     map c_created_at (rows (categoriesTable db)) \<and>
   map p_id (rows (productsTable (snd (updateProduct js now pin db)))) =
     map p_id (rows (productsTable db)) \<and>
   map p_created_at (rows (productsTable (snd (updateProduct js now pin db)))) =
     map p_created_at (rows (productsTable db)) \<and>
   map o_id (rows (ordersTable (snd (updateOrder js now oin db)))) =
     map o_id (rows (ordersTable db)) \<and>
   map o_created_at (rows (ordersTable (snd (updateOrder js now oin db)))) =
     map o_created_at (rows (ordersTable db)) \<and>
   map oi_id (rows (orderItemsTable (snd (updateOrderItem js iin db)))) =
     map oi_id (rows (orderItemsTable db)) \<and>
   map oi_created_at (rows (orderItemsTable (snd (updateOrderItem js iin db)))) =
     map oi_created_at (rows (orderItemsTable db))"
  using reachable_by_stamps_ok [of js t db]
    updateUser_advances [of js t db now uin new_user]
    updateCategory_advances [of js t db now cin new_category]
    updateProduct_advances [of js t db now pin new_product]
    updateOrder_advances [of js t db now oin new_order]
    update_keeps_keys(1) [of now uin db]
    update_keeps_keys(2) [of now cin db]
    update_keeps_keys(3) [of js now pin db]
    update_keeps_keys(4) [of js now oin db]
    update_keeps_keys(5) [of js iin db]
  by blast

lemma seeded_reachable_by: "reachable_by text_codec 1000 seeded_db"
  unfolding seeded_db_def
  by (intro reachable_by_call [where t = 1000] reachable_by_empty) simp_all

theorem timestamps_invariant_witness:
  "reachable_by text_codec 1000 seeded_db \<and> stamps_ok 1000 seeded_db \<and>
   (\<exists>new. fst (updateUser 2000 user_update_name seeded_db) = Inr new \<and>
      u_updated_at new = 2000 \<and>
      (\<forall>old\<in>set (rows (usersTable seeded_db)). u_id old = u_id new \<longrightarrow>
          u_created_at new = u_created_at old \<and> u_updated_at old < u_updated_at new)) \<and>
   (\<exists>new. fst (updateCategory 2000 category_update_empty seeded_db) = Inr new \<and>
      c_updated_at new = 2000 \<and>
      (\<forall>old\<in>set (rows (categoriesTable seeded_db)). c_id old = c_id new \<longrightarrow>
          c_created_at new = c_created_at old \<and> c_updated_at old < c_updated_at new)) \<and>
   (\<exists>new. fst (updateProduct text_codec 2000 product_update_empty seeded_db) = Inr new \<and>
      p_updated_at new = 2000 \<and>
      (\<forall>old\<in>set (rows (productsTable seeded_db)). p_id old = p_id new \<longrightarrow>
          p_created_at new = p_created_at old \<and> p_updated_at old < p_updated_at new)) \<and>
   (\<exists>new. fst (updateOrder text_codec 2000 order_update_empty seeded_db) = Inr new \<and>
      o_updated_at new = 2000 \<and>
      (\<forall>old\<in>set (rows (ordersTable seeded_db)). o_id old = o_id new \<longrightarrow>
          o_created_at new = o_created_at old \<and> o_updated_at old < o_updated_at new))"
proof -
  let ?u = "user_updateValues 2000 user_update_name (user_values 1000 user_input_minimal 1)"
  let ?c = "category_updateData 2000 category_update_empty
              (category_values 1000 category_input_minimal 1)"
  let ?p = "product_of_row text_codec (product_updateValues text_codec 2000
              product_update_empty (product_values text_codec 1000 product_input_minimal 1))"
  let ?o = "order_of_row text_codec (order_updateData text_codec 2000 order_update_empty
              (order_values text_codec 1000 order_input_minimal 1))"
  have u: "fst (updateUser 2000 user_update_name seeded_db) = Inr ?u"
    by (simp add: updateUser_def getUserById_def select_by_id_def select_where_def update_where_def
        first_row_def seeded_tables values_id user_update_name_def)
  have c: "fst (updateCategory 2000 category_update_empty seeded_db) = Inr ?c"
    by (simp add: updateCategory_def update_where_def seeded_tables values_id
        category_update_empty_def)
  have p: "fst (updateProduct text_codec 2000 product_update_empty seeded_db) = Inr ?p"
    by (simp add: updateProduct_def update_where_def seeded_tables values_id
        product_update_empty_def)
  have o: "fst (updateOrder text_codec 2000 order_update_empty seeded_db) = Inr ?o"
    by (simp add: updateOrder_def update_where_def seeded_tables values_id
        order_update_empty_def)
  from timestamps_invariant [where js = text_codec and t = 1000 and db = seeded_db
      and now = 2000 and uin = user_update_name and cin = category_update_empty
      and pin = product_update_empty and oin = order_update_empty
      and iin = item_update_quantity and new_user = ?u and new_category = ?c
      and new_product = ?p and new_order = ?o]
    seeded_reachable_by u c p o
  show ?thesis
    by (simp add: seeded_tables values_stamps)
qed

end
